theory Spec2Isabelle
  imports Complex_Main "HOL-Library.Word"
begin

section \<open>Book Publishing API (main.py)\<close>

text \<open>
  The service keeps three SQLite tables (authors, publishers, books) and offers five
  request handlers per table. The embedding below follows main.py handler by handler.

  The store is modelled by what the SQL statements of main.py do on it:
  \<^item> a table is the list of its rows in rowid order. Every table is declared
    \<^verbatim>\<open>INTEGER PRIMARY KEY AUTOINCREMENT\<close> and no statement of main.py sets an id, so a
    new row gets a rowid above every rowid the table has ever had and is appended; a
    \<^verbatim>\<open>SELECT\<close> without \<^verbatim>\<open>ORDER BY\<close> scans the table in rowid order.
  \<^item> \<^verbatim>\<open>UNIQUE\<close> columns (authors.email, publishers.email, books.isbn) reject a second
    row with the same non-NULL text; NULLs never conflict. The rejection is the driver's
    \<^verbatim>\<open>sqlite3.IntegrityError\<close>.
  \<^item> the \<^verbatim>\<open>FOREIGN KEY\<close> clauses of the books table are declared but not enforced:
    SQLite enforces them only after \<^verbatim>\<open>PRAGMA foreign_keys = ON\<close>, which main.py never
    issues. References are checked by the handlers alone.
  \<^item> \<^verbatim>\<open>LIMIT n OFFSET k\<close>: a negative \<open>n\<close> means no upper bound, a negative \<open>k\<close> counts
    as zero.
  \<^item> an INTEGER of the store is a signed 64-bit value. The driver refuses to bind a
    Python integer outside that range: \<^verbatim>\<open>cursor.execute\<close> raises \<^verbatim>\<open>OverflowError\<close>
    before the statement runs. A table whose rowids are used up refuses every INSERT
    with \<^verbatim>\<open>SQLITE_FULL\<close>, the driver's \<^verbatim>\<open>OperationalError\<close>.
  \<^item> a handler that raises before \<^verbatim>\<open>db.commit()\<close> leaves the store as it was: get_db
    closes the connection, which drops the open transaction.
  Python integers are \<open>int\<close>, strings are \<open>string\<close>, \<^verbatim>\<open>Optional[t]\<close> is \<open>t option\<close>.
  Prices are only stored and returned, never computed with; they are \<open>real\<close>.
  The current date (\<^verbatim>\<open>CURRENT_DATE\<close>) is a parameter of the operations that read it.

  The handlers receive inputs that pydantic has already parsed (a book's price is not
  negative); no handler looks at that again, and it is not modelled.
\<close>

subsection \<open>Models (the pydantic classes)\<close>

datatype date = Date nat nat nat

text \<open>Field names carry a prefix per entity (\<open>a_\<close>, \<open>p_\<close>, \<open>b_\<close>): the classes share the
  names \<open>name\<close>, \<open>email\<close> and \<open>id\<close>. A stored row keeps its id as the 64-bit rowid of
  the table; \<open>a_id\<close>, \<open>p_id\<close> and \<open>b_id\<close> read it as the integer the response carries.\<close>

record AuthorBase =
  a_name :: string
  a_email :: "string option"
  a_bio :: "string option"

type_synonym AuthorCreate = AuthorBase

record Author = AuthorBase +
  a_rowid :: "64 word"
  a_date_registered :: "date option"

definition a_id :: "Author \<Rightarrow> int" where
  "a_id r = sint (a_rowid r)"

record PublisherBase =
  p_name :: string
  p_address :: "string option"
  p_phone :: "string option"
  p_email :: "string option"

type_synonym PublisherCreate = PublisherBase

record Publisher = PublisherBase +
  p_rowid :: "64 word"

definition p_id :: "Publisher \<Rightarrow> int" where
  "p_id r = sint (p_rowid r)"

record BookBase =
  b_title :: string
  b_description :: "string option"
  b_isbn :: "string option"
  b_publication_date :: "date option"
  b_price :: "real option"
  b_genre :: "string option"
  b_author_id :: "int option"
  b_publisher_id :: "int option"

type_synonym BookCreate = BookBase

record Book = BookBase +
  b_rowid :: "64 word"

definition b_id :: "Book \<Rightarrow> int" where
  "b_id r = sint (b_rowid r)"

subsection \<open>Errors and responses\<close>

text \<open>\<open>HTTPException\<close> is what the handlers raise themselves. The others are raised
  under them: \<open>IntegrityError\<close> by the store on a \<^verbatim>\<open>UNIQUE\<close> conflict, \<open>OperationalError\<close>
  by the store when a table has no rowid left, \<open>OverflowError\<close> by the driver for an
  integer parameter outside the 64-bit range, and \<open>TypeError\<close> by \<^verbatim>\<open>dict(None)\<close>. No
  handler catches any of them, so the framework answers them with status 500.\<close>

datatype error =
    HTTPException int string
  | IntegrityError string
  | OperationalError string
  | OverflowError
  | TypeError

fun status_code :: "error \<Rightarrow> int" where
  "status_code (HTTPException code detail) = code"
| "status_code (IntegrityError msg) = 500"
| "status_code (OperationalError msg) = 500"
| "status_code OverflowError = 500"
| "status_code TypeError = 500"

definition is_client_error :: "error \<Rightarrow> bool" where
  "is_client_error e = (400 \<le> status_code e \<and> status_code e < 500)"

subsection \<open>The store\<close>

record database =
  authors :: "Author list"
  publishers :: "Publisher list"
  books :: "Book list"
  authors_seq :: "64 word"
  publishers_seq :: "64 word"
  books_seq :: "64 word"

datatype table = Authors | Publishers | Books

text \<open>The statements a handler hands to \<^verbatim>\<open>cursor.execute\<close>, also when the call
  raises, and \<^verbatim>\<open>db.commit()\<close>.\<close>

datatype stmt = Select table | Insert table | Update table | Delete table | Commit

text \<open>A handler's outcome: what it returns or raises, the store afterwards, and the
  statements it executed, in order.\<close>

type_synonym 'a response = "(error + 'a) \<times> database \<times> stmt list"

text \<open>The integers the driver binds to a statement's parameter.\<close>

definition sqlite_int :: "int \<Rightarrow> bool" where
  "sqlite_int i = (- (2 ^ 63) \<le> i \<and> i < 2 ^ 63)"

text \<open>AUTOINCREMENT: one above the largest rowid the table holds or has ever held. When
  that is the largest rowid there is, the result is not a rowid any more and the INSERT
  is refused.\<close>

definition next_rowid :: "int \<Rightarrow> int list \<Rightarrow> int" where
  "next_rowid seq ids = fold max ids seq + 1"

text \<open>A UNIQUE column rejects the value \<open>v\<close> when a row of \<open>rows\<close> holds the same text.\<close>

definition unique_conflict :: "('r \<Rightarrow> string option) \<Rightarrow> string option \<Rightarrow> 'r list \<Rightarrow> bool" where
  "unique_conflict col v rows =
     (case v of None \<Rightarrow> False | Some s \<Rightarrow> list_ex (\<lambda>r. col r = Some s) rows)"

text \<open>\<^verbatim>\<open>LIMIT ? OFFSET ?\<close> with the parameters \<open>(limit, skip)\<close>, applied to the rows
  the rest of the statement selects.\<close>

definition sql_limit_offset :: "int \<Rightarrow> int \<Rightarrow> 'r list \<Rightarrow> error + 'r list" where
  "sql_limit_offset limit skip rows =
     (if sqlite_int limit \<and> sqlite_int skip
      then
        let rest = drop (nat skip) rows
        in Inr (if limit < 0 then rest else take (nat limit) rest)
      else Inl OverflowError)"

text \<open>\<^verbatim>\<open>SELECT * FROM authors WHERE id = ?\<close> followed by \<^verbatim>\<open>fetchone()\<close>.\<close>

definition sql_select_author :: "int \<Rightarrow> database \<Rightarrow> error + Author option" where
  "sql_select_author author_id db =
     (if sqlite_int author_id then Inr (find (\<lambda>r. a_id r = author_id) (authors db))
      else Inl OverflowError)"

definition sql_select_publisher :: "int \<Rightarrow> database \<Rightarrow> error + Publisher option" where
  "sql_select_publisher publisher_id db =
     (if sqlite_int publisher_id
      then Inr (find (\<lambda>r. p_id r = publisher_id) (publishers db))
      else Inl OverflowError)"

definition sql_select_book :: "int \<Rightarrow> database \<Rightarrow> error + Book option" where
  "sql_select_book book_id db =
     (if sqlite_int book_id then Inr (find (\<lambda>r. b_id r = book_id) (books db))
      else Inl OverflowError)"

text \<open>\<^verbatim>\<open>INSERT INTO authors (name, email, bio) VALUES (?, ?, ?)\<close>: the new rowid
  (\<^verbatim>\<open>cursor.lastrowid\<close>) and the store with the row appended; \<open>date_registered\<close> takes
  its default \<^verbatim>\<open>CURRENT_DATE\<close>. The store picks the rowid first and checks the
  \<^verbatim>\<open>UNIQUE\<close> column after that. The ids a book INSERT or UPDATE binds have passed the
  handler's lookups by then, so they are in the 64-bit range.\<close>

definition sql_insert_author :: "date \<Rightarrow> AuthorCreate \<Rightarrow> database \<Rightarrow> error + int \<times> database" where
  "sql_insert_author today author db =
     (let rowid = next_rowid (sint (authors_seq db)) (map a_id (authors db)) in
      if \<not> sqlite_int rowid then Inl (OperationalError ''database or disk is full'')
      else if unique_conflict a_email (a_email author) (authors db)
      then Inl (IntegrityError ''UNIQUE constraint failed: authors.email'')
      else
        Inr (rowid,
             db\<lparr>authors := authors db @
                   [\<lparr>a_name = a_name author, a_email = a_email author, a_bio = a_bio author,
                     a_rowid = word_of_int rowid, a_date_registered = Some today\<rparr>],
                authors_seq := word_of_int rowid\<rparr>))"

definition sql_insert_publisher :: "PublisherCreate \<Rightarrow> database \<Rightarrow> error + int \<times> database" where
  "sql_insert_publisher publisher db =
     (let rowid = next_rowid (sint (publishers_seq db)) (map p_id (publishers db)) in
      if \<not> sqlite_int rowid then Inl (OperationalError ''database or disk is full'')
      else if unique_conflict p_email (p_email publisher) (publishers db)
      then Inl (IntegrityError ''UNIQUE constraint failed: publishers.email'')
      else
        Inr (rowid,
             db\<lparr>publishers := publishers db @
                   [\<lparr>p_name = p_name publisher, p_address = p_address publisher,
                     p_phone = p_phone publisher, p_email = p_email publisher,
                     p_rowid = word_of_int rowid\<rparr>],
                publishers_seq := word_of_int rowid\<rparr>))"

definition sql_insert_book :: "BookCreate \<Rightarrow> database \<Rightarrow> error + int \<times> database" where
  "sql_insert_book book db =
     (let rowid = next_rowid (sint (books_seq db)) (map b_id (books db)) in
      if \<not> sqlite_int rowid then Inl (OperationalError ''database or disk is full'')
      else if unique_conflict b_isbn (b_isbn book) (books db)
      then Inl (IntegrityError ''UNIQUE constraint failed: books.isbn'')
      else
        Inr (rowid,
             db\<lparr>books := books db @
                   [\<lparr>b_title = b_title book, b_description = b_description book,
                     b_isbn = b_isbn book, b_publication_date = b_publication_date book,
                     b_price = b_price book, b_genre = b_genre book,
                     b_author_id = b_author_id book, b_publisher_id = b_publisher_id book,
                     b_rowid = word_of_int rowid\<rparr>],
                books_seq := word_of_int rowid\<rparr>))"

text \<open>\<^verbatim>\<open>UPDATE authors SET name = ?, email = ?, bio = ? WHERE id = ?\<close>: every row with
  that id takes the new values; the statement fails when such a row exists and another
  row already holds the new email. Every handler runs it, and the DELETE below, with an
  id that the SELECT before it has bound already.\<close>

definition sql_update_author :: "int \<Rightarrow> AuthorCreate \<Rightarrow> database \<Rightarrow> error + database" where
  "sql_update_author author_id author db =
     (if list_ex (\<lambda>r. a_id r = author_id) (authors db) \<and>
         unique_conflict a_email (a_email author)
           (filter (\<lambda>r. a_id r \<noteq> author_id) (authors db))
      then Inl (IntegrityError ''UNIQUE constraint failed: authors.email'')
      else Inr (db\<lparr>authors :=
             map (\<lambda>r. if a_id r = author_id
                       then r\<lparr>a_name := a_name author, a_email := a_email author,
                              a_bio := a_bio author\<rparr>
                       else r) (authors db)\<rparr>))"

definition sql_update_publisher :: "int \<Rightarrow> PublisherCreate \<Rightarrow> database \<Rightarrow> error + database" where
  "sql_update_publisher publisher_id publisher db =
     (if list_ex (\<lambda>r. p_id r = publisher_id) (publishers db) \<and>
         unique_conflict p_email (p_email publisher)
           (filter (\<lambda>r. p_id r \<noteq> publisher_id) (publishers db))
      then Inl (IntegrityError ''UNIQUE constraint failed: publishers.email'')
      else Inr (db\<lparr>publishers :=
             map (\<lambda>r. if p_id r = publisher_id
                       then r\<lparr>p_name := p_name publisher, p_address := p_address publisher,
                              p_phone := p_phone publisher, p_email := p_email publisher\<rparr>
                       else r) (publishers db)\<rparr>))"

definition sql_update_book :: "int \<Rightarrow> BookCreate \<Rightarrow> database \<Rightarrow> error + database" where
  "sql_update_book book_id book db =
     (if list_ex (\<lambda>r. b_id r = book_id) (books db) \<and>
         unique_conflict b_isbn (b_isbn book)
           (filter (\<lambda>r. b_id r \<noteq> book_id) (books db))
      then Inl (IntegrityError ''UNIQUE constraint failed: books.isbn'')
      else Inr (db\<lparr>books :=
             map (\<lambda>r. if b_id r = book_id
                       then r\<lparr>b_title := b_title book, b_description := b_description book,
                              b_isbn := b_isbn book,
                              b_publication_date := b_publication_date book,
                              b_price := b_price book, b_genre := b_genre book,
                              b_author_id := b_author_id book,
                              b_publisher_id := b_publisher_id book\<rparr>
                       else r) (books db)\<rparr>))"

text \<open>\<^verbatim>\<open>DELETE FROM authors WHERE id = ?\<close>. No other table is touched.\<close>

definition sql_delete_author :: "int \<Rightarrow> database \<Rightarrow> database" where
  "sql_delete_author author_id db =
     db\<lparr>authors := filter (\<lambda>r. a_id r \<noteq> author_id) (authors db)\<rparr>"

definition sql_delete_publisher :: "int \<Rightarrow> database \<Rightarrow> database" where
  "sql_delete_publisher publisher_id db =
     db\<lparr>publishers := filter (\<lambda>r. p_id r \<noteq> publisher_id) (publishers db)\<rparr>"

definition sql_delete_book :: "int \<Rightarrow> database \<Rightarrow> database" where
  "sql_delete_book book_id db =
     db\<lparr>books := filter (\<lambda>r. b_id r \<noteq> book_id) (books db)\<rparr>"

subsection \<open>init_db\<close>

text \<open>\<open>init_db\<close> creates and seeds the store only when the file does not exist yet
  (\<open>None\<close>); an existing store is left alone.\<close>

definition seed_db :: "date \<Rightarrow> database" where
  "seed_db today =
     \<lparr>authors =
        [\<lparr>a_name = ''Jane Austen'', a_email = Some ''jane@example.com'',
          a_bio = Some ''Famous English novelist known for her six major novels'',
          a_rowid = 1, a_date_registered = Some today\<rparr>,
         \<lparr>a_name = ''George Orwell'', a_email = Some ''george@example.com'',
          a_bio = Some ''English novelist and essayist'',
          a_rowid = 2, a_date_registered = Some today\<rparr>],
      publishers =
        [\<lparr>p_name = ''Penguin Random House'', p_address = Some ''123 Publishing St, NY'',
          p_phone = Some ''555-1234'', p_email = Some ''info@prh.com'', p_rowid = 1\<rparr>,
         \<lparr>p_name = ''HarperCollins'', p_address = Some ''456 Book Ave, CA'',
          p_phone = Some ''555-5678'', p_email = Some ''info@harpercollins.com'', p_rowid = 2\<rparr>],
      books =
        [\<lparr>b_title = ''Pride and Prejudice'',
          b_description = Some ''A romantic novel of manners'',
          b_isbn = Some ''9780141439518'', b_publication_date = Some (Date 1813 1 28),
          b_price = Some (1299 / 100), b_genre = Some ''Classic'',
          b_author_id = Some 1, b_publisher_id = Some 1, b_rowid = 1\<rparr>,
         \<lparr>b_title = ''1984'',
          b_description = Some ''A dystopian social science fiction novel'',
          b_isbn = Some ''9780451524935'', b_publication_date = Some (Date 1949 6 8),
          b_price = Some (1499 / 100), b_genre = Some ''Dystopian'',
          b_author_id = Some 2, b_publisher_id = Some 2, b_rowid = 2\<rparr>],
      authors_seq = 2, publishers_seq = 2, books_seq = 2\<rparr>"

definition init_db :: "date \<Rightarrow> database option \<Rightarrow> database" where
  "init_db today file = (case file of None \<Rightarrow> seed_db today | Some db \<Rightarrow> db)"

subsection \<open>f-strings\<close>

fun str_nat :: "nat \<Rightarrow> string" where
  "str_nat n =
     (if n < 10 then [''0123456789'' ! n]
      else str_nat (n div 10) @ [''0123456789'' ! (n mod 10)])"

declare str_nat.simps [simp del]

definition str_int :: "int \<Rightarrow> string" where
  "str_int i = (if i < 0 then CHR ''-'' # str_nat (nat (- i)) else str_nat (nat i))"

subsection \<open>Author endpoints\<close>

text \<open>Each handler follows its Python text statement by statement. An exception that
  \<^verbatim>\<open>cursor.execute\<close> raises ends the handler; \<^verbatim>\<open>dict(result)\<close> of a row that
  \<^verbatim>\<open>fetchone()\<close> did not find raises \<open>TypeError\<close>.\<close>

definition create_author :: "date \<Rightarrow> AuthorCreate \<Rightarrow> database \<Rightarrow> Author response" where
  "create_author today author db =
     (case sql_insert_author today author db of
        Inl e \<Rightarrow> (Inl e, db, [Insert Authors])
      | Inr (author_id, db') \<Rightarrow>
          (case sql_select_author author_id db' of
             Inl e \<Rightarrow> (Inl e, db', [Insert Authors, Commit, Select Authors])
           | Inr None \<Rightarrow> (Inl TypeError, db', [Insert Authors, Commit, Select Authors])
           | Inr (Some result) \<Rightarrow>
               (Inr result, db', [Insert Authors, Commit, Select Authors])))"

definition read_authors :: "int \<Rightarrow> int \<Rightarrow> database \<Rightarrow> Author list response" where
  "read_authors skip limit db =
     (sql_limit_offset limit skip (authors db), db, [Select Authors])"

definition read_author :: "int \<Rightarrow> database \<Rightarrow> Author response" where
  "read_author author_id db =
     (case sql_select_author author_id db of
        Inl e \<Rightarrow> (Inl e, db, [Select Authors])
      | Inr None \<Rightarrow> (Inl (HTTPException 404 ''Author not found''), db, [Select Authors])
      | Inr (Some result) \<Rightarrow> (Inr result, db, [Select Authors]))"

definition update_author :: "int \<Rightarrow> AuthorCreate \<Rightarrow> database \<Rightarrow> Author response" where
  "update_author author_id author db =
     (case sql_select_author author_id db of
        Inl e \<Rightarrow> (Inl e, db, [Select Authors])
      | Inr None \<Rightarrow> (Inl (HTTPException 404 ''Author not found''), db, [Select Authors])
      | Inr (Some result) \<Rightarrow>
     (case sql_update_author author_id author db of
        Inl e \<Rightarrow> (Inl e, db, [Select Authors, Update Authors])
      | Inr db' \<Rightarrow>
     (case sql_select_author author_id db' of
        Inl e \<Rightarrow> (Inl e, db', [Select Authors, Update Authors, Commit, Select Authors])
      | Inr None \<Rightarrow>
          (Inl TypeError, db', [Select Authors, Update Authors, Commit, Select Authors])
      | Inr (Some result') \<Rightarrow>
          (Inr result', db', [Select Authors, Update Authors, Commit, Select Authors]))))"

definition delete_author :: "int \<Rightarrow> database \<Rightarrow> string response" where
  "delete_author author_id db =
     (case sql_select_author author_id db of
        Inl e \<Rightarrow> (Inl e, db, [Select Authors])
      | Inr None \<Rightarrow> (Inl (HTTPException 404 ''Author not found''), db, [Select Authors])
      | Inr (Some result) \<Rightarrow>
          (Inr (''Author '' @ str_int author_id @ '' deleted successfully''),
           sql_delete_author author_id db,
           [Select Authors, Delete Authors, Commit]))"

subsection \<open>Publisher endpoints\<close>

definition create_publisher :: "PublisherCreate \<Rightarrow> database \<Rightarrow> Publisher response" where
  "create_publisher publisher db =
     (case sql_insert_publisher publisher db of
        Inl e \<Rightarrow> (Inl e, db, [Insert Publishers])
      | Inr (publisher_id, db') \<Rightarrow>
          (case sql_select_publisher publisher_id db' of
             Inl e \<Rightarrow> (Inl e, db', [Insert Publishers, Commit, Select Publishers])
           | Inr None \<Rightarrow> (Inl TypeError, db', [Insert Publishers, Commit, Select Publishers])
           | Inr (Some result) \<Rightarrow>
               (Inr result, db', [Insert Publishers, Commit, Select Publishers])))"

definition read_publishers :: "int \<Rightarrow> int \<Rightarrow> database \<Rightarrow> Publisher list response" where
  "read_publishers skip limit db =
     (sql_limit_offset limit skip (publishers db), db, [Select Publishers])"

definition read_publisher :: "int \<Rightarrow> database \<Rightarrow> Publisher response" where
  "read_publisher publisher_id db =
     (case sql_select_publisher publisher_id db of
        Inl e \<Rightarrow> (Inl e, db, [Select Publishers])
      | Inr None \<Rightarrow> (Inl (HTTPException 404 ''Publisher not found''), db, [Select Publishers])
      | Inr (Some result) \<Rightarrow> (Inr result, db, [Select Publishers]))"

definition update_publisher :: "int \<Rightarrow> PublisherCreate \<Rightarrow> database \<Rightarrow> Publisher response" where
  "update_publisher publisher_id publisher db =
     (case sql_select_publisher publisher_id db of
        Inl e \<Rightarrow> (Inl e, db, [Select Publishers])
      | Inr None \<Rightarrow> (Inl (HTTPException 404 ''Publisher not found''), db, [Select Publishers])
      | Inr (Some result) \<Rightarrow>
     (case sql_update_publisher publisher_id publisher db of
        Inl e \<Rightarrow> (Inl e, db, [Select Publishers, Update Publishers])
      | Inr db' \<Rightarrow>
     (case sql_select_publisher publisher_id db' of
        Inl e \<Rightarrow> (Inl e, db', [Select Publishers, Update Publishers, Commit, Select Publishers])
      | Inr None \<Rightarrow>
          (Inl TypeError, db', [Select Publishers, Update Publishers, Commit, Select Publishers])
      | Inr (Some result') \<Rightarrow>
          (Inr result', db', [Select Publishers, Update Publishers, Commit, Select Publishers]))))"

definition delete_publisher :: "int \<Rightarrow> database \<Rightarrow> string response" where
  "delete_publisher publisher_id db =
     (case sql_select_publisher publisher_id db of
        Inl e \<Rightarrow> (Inl e, db, [Select Publishers])
      | Inr None \<Rightarrow> (Inl (HTTPException 404 ''Publisher not found''), db, [Select Publishers])
      | Inr (Some result) \<Rightarrow>
          (Inr (''Publisher '' @ str_int publisher_id @ '' deleted successfully''),
           sql_delete_publisher publisher_id db,
           [Select Publishers, Delete Publishers, Commit]))"

subsection \<open>Book endpoints\<close>

text \<open>The blocks "Validate author_id if provided" and "Validate publisher_id if
  provided" stand with the same text in \<open>create_book\<close> and \<open>update_book\<close>: the exception
  the block raises, if any, and the statements it executes.\<close>

definition validate_author_id :: "int option \<Rightarrow> database \<Rightarrow> error option \<times> stmt list" where
  "validate_author_id author_id db =
     (case author_id of
        None \<Rightarrow> (None, [])
      | Some i \<Rightarrow>
          (case sql_select_author i db of
             Inl e \<Rightarrow> (Some e, [Select Authors])
           | Inr None \<Rightarrow> (Some (HTTPException 404 ''Author not found''), [Select Authors])
           | Inr (Some row) \<Rightarrow> (None, [Select Authors])))"

definition validate_publisher_id :: "int option \<Rightarrow> database \<Rightarrow> error option \<times> stmt list" where
  "validate_publisher_id publisher_id db =
     (case publisher_id of
        None \<Rightarrow> (None, [])
      | Some i \<Rightarrow>
          (case sql_select_publisher i db of
             Inl e \<Rightarrow> (Some e, [Select Publishers])
           | Inr None \<Rightarrow>
               (Some (HTTPException 404 ''Publisher not found''), [Select Publishers])
           | Inr (Some row) \<Rightarrow> (None, [Select Publishers])))"

definition create_book :: "BookCreate \<Rightarrow> database \<Rightarrow> Book response" where
  "create_book book db =
     (case validate_author_id (b_author_id book) db of
        (Some e, log1) \<Rightarrow> (Inl e, db, log1)
      | (None, log1) \<Rightarrow>
     (case validate_publisher_id (b_publisher_id book) db of
        (Some e, log2) \<Rightarrow> (Inl e, db, log1 @ log2)
      | (None, log2) \<Rightarrow>
     (case sql_insert_book book db of
        Inl e \<Rightarrow> (Inl e, db, log1 @ log2 @ [Insert Books])
      | Inr (book_id, db') \<Rightarrow>
     (case sql_select_book book_id db' of
        Inl e \<Rightarrow> (Inl e, db', log1 @ log2 @ [Insert Books, Commit, Select Books])
      | Inr None \<Rightarrow>
          (Inl TypeError, db', log1 @ log2 @ [Insert Books, Commit, Select Books])
      | Inr (Some result) \<Rightarrow>
          (Inr result, db', log1 @ log2 @ [Insert Books, Commit, Select Books])))))"

text \<open>The WHERE clause of \<open>read_books\<close>: the list \<open>conditions\<close> with its parameters.
  A comparison with a NULL column is not true, so such a row is left out. An id
  parameter has to fit the 64-bit range to be bound.\<close>

datatype condition = Genre_eq string | Author_id_eq int | Publisher_id_eq int

fun holds :: "condition \<Rightarrow> Book \<Rightarrow> bool" where
  "holds (Genre_eq g) r = (b_genre r = Some g)"
| "holds (Author_id_eq i) r = (b_author_id r = Some i)"
| "holds (Publisher_id_eq i) r = (b_publisher_id r = Some i)"

fun bindable :: "condition \<Rightarrow> bool" where
  "bindable (Genre_eq g) = True"
| "bindable (Author_id_eq i) = sqlite_int i"
| "bindable (Publisher_id_eq i) = sqlite_int i"

text \<open>Python's truth value of an \<^verbatim>\<open>Optional[str]\<close> and of an \<^verbatim>\<open>Optional[int]\<close>, as
  in \<^verbatim>\<open>if genre:\<close> and \<^verbatim>\<open>if author_id:\<close>: \<open>None\<close>, the empty string and \<open>0\<close> are false.\<close>

definition truthy_str :: "string option \<Rightarrow> bool" where
  "truthy_str v = (case v of None \<Rightarrow> False | Some s \<Rightarrow> s \<noteq> [])"

definition truthy_int :: "int option \<Rightarrow> bool" where
  "truthy_int v = (case v of None \<Rightarrow> False | Some i \<Rightarrow> i \<noteq> 0)"

definition build_conditions :: "string option \<Rightarrow> int option \<Rightarrow> int option \<Rightarrow> condition list" where
  "build_conditions genre author_id publisher_id =
     (case genre of Some g \<Rightarrow> if truthy_str genre then [Genre_eq g] else [] | None \<Rightarrow> []) @
     (case author_id of
        Some i \<Rightarrow> if truthy_int author_id then [Author_id_eq i] else [] | None \<Rightarrow> []) @
     (case publisher_id of
        Some i \<Rightarrow> if truthy_int publisher_id then [Publisher_id_eq i] else [] | None \<Rightarrow> [])"

definition read_books ::
  "int \<Rightarrow> int \<Rightarrow> string option \<Rightarrow> int option \<Rightarrow> int option \<Rightarrow> database \<Rightarrow> Book list response" where
  "read_books skip limit genre author_id publisher_id db =
     (let conditions = build_conditions genre author_id publisher_id;
          results =
            (if list_all bindable conditions
             then sql_limit_offset limit skip
                    (filter (\<lambda>r. list_all (\<lambda>c. holds c r) conditions) (books db))
             else Inl OverflowError)
      in (results, db, [Select Books]))"

definition read_book :: "int \<Rightarrow> database \<Rightarrow> Book response" where
  "read_book book_id db =
     (case sql_select_book book_id db of
        Inl e \<Rightarrow> (Inl e, db, [Select Books])
      | Inr None \<Rightarrow> (Inl (HTTPException 404 ''Book not found''), db, [Select Books])
      | Inr (Some result) \<Rightarrow> (Inr result, db, [Select Books]))"

definition update_book :: "int \<Rightarrow> BookCreate \<Rightarrow> database \<Rightarrow> Book response" where
  "update_book book_id book db =
     (case sql_select_book book_id db of
        Inl e \<Rightarrow> (Inl e, db, [Select Books])
      | Inr None \<Rightarrow> (Inl (HTTPException 404 ''Book not found''), db, [Select Books])
      | Inr (Some result) \<Rightarrow>
     (case validate_author_id (b_author_id book) db of
        (Some e, log1) \<Rightarrow> (Inl e, db, Select Books # log1)
      | (None, log1) \<Rightarrow>
     (case validate_publisher_id (b_publisher_id book) db of
        (Some e, log2) \<Rightarrow> (Inl e, db, Select Books # log1 @ log2)
      | (None, log2) \<Rightarrow>
     (case sql_update_book book_id book db of
        Inl e \<Rightarrow> (Inl e, db, Select Books # log1 @ log2 @ [Update Books])
      | Inr db' \<Rightarrow>
     (case sql_select_book book_id db' of
        Inl e \<Rightarrow>
          (Inl e, db', Select Books # log1 @ log2 @ [Update Books, Commit, Select Books])
      | Inr None \<Rightarrow>
          (Inl TypeError, db',
           Select Books # log1 @ log2 @ [Update Books, Commit, Select Books])
      | Inr (Some result') \<Rightarrow>
          (Inr result', db',
           Select Books # log1 @ log2 @ [Update Books, Commit, Select Books]))))))"

definition delete_book :: "int \<Rightarrow> database \<Rightarrow> string response" where
  "delete_book book_id db =
     (case sql_select_book book_id db of
        Inl e \<Rightarrow> (Inl e, db, [Select Books])
      | Inr None \<Rightarrow> (Inl (HTTPException 404 ''Book not found''), db, [Select Books])
      | Inr (Some result) \<Rightarrow>
          (Inr (''Book '' @ str_int book_id @ '' deleted successfully''),
           sql_delete_book book_id db,
           [Select Books, Delete Books, Commit]))"

subsection \<open>Query parameters\<close>

text \<open>\<^verbatim>\<open>skip: int = 0, limit: int = 100\<close>: a query parameter the request leaves out takes
  its default.\<close>

definition query_default :: "int \<Rightarrow> int option \<Rightarrow> int" where
  "query_default d v = (case v of None \<Rightarrow> d | Some x \<Rightarrow> x)"

definition get_authors :: "int option \<Rightarrow> int option \<Rightarrow> database \<Rightarrow> Author list response" where
  "get_authors skip limit db = read_authors (query_default 0 skip) (query_default 100 limit) db"

definition get_publishers :: "int option \<Rightarrow> int option \<Rightarrow> database \<Rightarrow> Publisher list response" where
  "get_publishers skip limit db =
     read_publishers (query_default 0 skip) (query_default 100 limit) db"

definition get_books ::
  "int option \<Rightarrow> int option \<Rightarrow> string option \<Rightarrow> int option \<Rightarrow> int option \<Rightarrow> database
     \<Rightarrow> Book list response" where
  "get_books skip limit genre author_id publisher_id db =
     read_books (query_default 0 skip) (query_default 100 limit) genre author_id publisher_id db"

section \<open>Properties\<close>

subsection \<open>Lookups, updates and fresh rowids\<close>

lemma find_absent: "i \<notin> f ` set xs \<Longrightarrow> find (\<lambda>r. f r = i) xs = None"
  by (induction xs) auto

lemma find_present:
  "i \<in> f ` set xs \<Longrightarrow> \<exists>r. find (\<lambda>r. f r = i) xs = Some r \<and> r \<in> set xs \<and> f r = i"
  by (induction xs) auto

lemma find_SomeD: "find (\<lambda>r. f r = i) xs = Some r \<Longrightarrow> r \<in> set xs \<and> f r = i"
  by (induction xs) (auto split: if_splits)

lemma find_map_update:
  assumes "\<And>r. f (g r) = f r"
  shows "find (\<lambda>r. f r = i) (map (\<lambda>r. if f r = i then g r else r) xs) =
         map_option g (find (\<lambda>r. f r = i) xs)"
  using assms by (induction xs) auto

lemma find_append_fresh:
  "f x = i \<Longrightarrow> i \<notin> f ` set xs \<Longrightarrow> find (\<lambda>r. f r = i) (xs @ [x]) = Some x"
  by (induction xs) auto

lemma fold_max_lower: "(s::int) \<le> fold max xs s"
proof (induction xs arbitrary: s)
  case Nil
  show ?case by simp
next
  case (Cons x xs)
  have "s \<le> max x s" by simp
  also have "\<dots> \<le> fold max xs (max x s)" by (rule Cons.IH)
  finally show ?case by simp
qed

lemma fold_max_upper: "x \<in> set xs \<Longrightarrow> x \<le> fold max xs (s::int)"
proof (induction xs arbitrary: s)
  case Nil
  then show ?case by simp
next
  case (Cons y ys)
  show ?case
  proof (cases "x = y")
    case True
    have "x \<le> max y s" using True by simp
    also have "\<dots> \<le> fold max ys (max y s)" by (rule fold_max_lower)
    finally show ?thesis by simp
  next
    case False
    with Cons.prems have "x \<in> set ys" by simp
    then show ?thesis using Cons.IH by simp
  qed
qed

text \<open>AUTOINCREMENT never hands out a rowid the table holds.\<close>

lemma next_rowid_fresh: "next_rowid seq ids \<notin> set ids"
  using fold_max_upper [of "next_rowid seq ids" ids seq] by (auto simp: next_rowid_def)

text \<open>What the store holds is a 64-bit integer, and a rowid in the range is stored as
  it is.\<close>

lemma sqlite_int_sint: "sqlite_int (sint (w :: 64 word))"
  using sint_ge [of w] sint_lt [of w] by (simp add: sqlite_int_def)

lemma sint_word_of_int: "sqlite_int i \<Longrightarrow> sint (word_of_int i :: 64 word) = i"
  by (simp add: sqlite_int_def signed_of_int signed_take_bit_int_eq_self)

lemma stored_author_id: "i \<in> a_id ` set rows \<Longrightarrow> sqlite_int i"
  by (auto simp: a_id_def sqlite_int_sint)

lemma stored_publisher_id: "i \<in> p_id ` set rows \<Longrightarrow> sqlite_int i"
  by (auto simp: p_id_def sqlite_int_sint)

lemma stored_book_id: "i \<in> b_id ` set rows \<Longrightarrow> sqlite_int i"
  by (auto simp: b_id_def sqlite_int_sint)

lemma select_author_absent:
  "sqlite_int author_id \<Longrightarrow> author_id \<notin> a_id ` set (authors db) \<Longrightarrow>
     sql_select_author author_id db = Inr None"
  by (simp add: sql_select_author_def find_absent)

lemma select_publisher_absent:
  "sqlite_int publisher_id \<Longrightarrow> publisher_id \<notin> p_id ` set (publishers db) \<Longrightarrow>
     sql_select_publisher publisher_id db = Inr None"
  by (simp add: sql_select_publisher_def find_absent)

lemma select_book_absent:
  "sqlite_int book_id \<Longrightarrow> book_id \<notin> b_id ` set (books db) \<Longrightarrow>
     sql_select_book book_id db = Inr None"
  by (simp add: sql_select_book_def find_absent)

lemma select_author_present:
  "author_id \<in> a_id ` set (authors db) \<Longrightarrow>
     \<exists>r. sql_select_author author_id db = Inr (Some r) \<and> r \<in> set (authors db) \<and>
         a_id r = author_id"
  using find_present [of author_id a_id "authors db"] stored_author_id [of author_id]
  by (auto simp: sql_select_author_def)

lemma select_publisher_present:
  "publisher_id \<in> p_id ` set (publishers db) \<Longrightarrow>
     \<exists>r. sql_select_publisher publisher_id db = Inr (Some r) \<and> r \<in> set (publishers db) \<and>
         p_id r = publisher_id"
  using find_present [of publisher_id p_id "publishers db"]
    stored_publisher_id [of publisher_id]
  by (auto simp: sql_select_publisher_def)

lemma select_book_present:
  "book_id \<in> b_id ` set (books db) \<Longrightarrow>
     \<exists>r. sql_select_book book_id db = Inr (Some r) \<and> r \<in> set (books db) \<and>
         b_id r = book_id"
  using find_present [of book_id b_id "books db"] stored_book_id [of book_id]
  by (auto simp: sql_select_book_def)

text \<open>The ids of the seeded rows.\<close>

lemma seed_ids:
  "a_id ` set (authors (seed_db today)) = {1, 2}"
  "p_id ` set (publishers (seed_db today)) = {1, 2}"
  "b_id ` set (books (seed_db today)) = {1, 2}"
  by (simp_all add: seed_db_def a_id_def p_id_def b_id_def)

subsection \<open>Ids that are not in the store\<close>

text \<open>C4 (as amended): for each of the three entities and every id in the 64-bit
  range that no row of its table carries, get, update and delete raise the 404 "not
  found" of that entity. The only statement executed is the SELECT that looks the id
  up, and the store is the one the request found.\<close>

theorem missing_id_not_found:
  "(sqlite_int author_id \<and> author_id \<notin> a_id ` set (authors db) \<longrightarrow>
      read_author author_id db =
        (Inl (HTTPException 404 ''Author not found''), db, [Select Authors]) \<and>
      update_author author_id author db =
        (Inl (HTTPException 404 ''Author not found''), db, [Select Authors]) \<and>
      delete_author author_id db =
        (Inl (HTTPException 404 ''Author not found''), db, [Select Authors])) \<and>
   (sqlite_int publisher_id \<and> publisher_id \<notin> p_id ` set (publishers db) \<longrightarrow>
      read_publisher publisher_id db =
        (Inl (HTTPException 404 ''Publisher not found''), db, [Select Publishers]) \<and>
      update_publisher publisher_id publisher db =
        (Inl (HTTPException 404 ''Publisher not found''), db, [Select Publishers]) \<and>
      delete_publisher publisher_id db =
        (Inl (HTTPException 404 ''Publisher not found''), db, [Select Publishers])) \<and>
   (sqlite_int book_id \<and> book_id \<notin> b_id ` set (books db) \<longrightarrow>
      read_book book_id db =
        (Inl (HTTPException 404 ''Book not found''), db, [Select Books]) \<and>
      update_book book_id book db =
        (Inl (HTTPException 404 ''Book not found''), db, [Select Books]) \<and>
      delete_book book_id db =
        (Inl (HTTPException 404 ''Book not found''), db, [Select Books]))"
  by (simp add: read_author_def update_author_def delete_author_def
      read_publisher_def update_publisher_def delete_publisher_def
      read_book_def update_book_def delete_book_def
      select_author_absent select_publisher_absent select_book_absent)

theorem missing_id_not_found_witness:
  "sqlite_int 9999 \<and>
   9999 \<notin> a_id ` set (authors (seed_db (Date 2024 1 1))) \<and>
   9999 \<notin> p_id ` set (publishers (seed_db (Date 2024 1 1))) \<and>
   9999 \<notin> b_id ` set (books (seed_db (Date 2024 1 1))) \<and>
   read_author 9999 (seed_db (Date 2024 1 1)) =
     (Inl (HTTPException 404 ''Author not found''), seed_db (Date 2024 1 1),
      [Select Authors]) \<and>
   delete_publisher 9999 (seed_db (Date 2024 1 1)) =
     (Inl (HTTPException 404 ''Publisher not found''), seed_db (Date 2024 1 1),
      [Select Publishers]) \<and>
   update_book 9999
       \<lparr>b_title = ''Emma'', b_description = None, b_isbn = None,
         b_publication_date = None, b_price = None, b_genre = None,
         b_author_id = Some 1, b_publisher_id = None\<rparr>
       (seed_db (Date 2024 1 1)) =
     (Inl (HTTPException 404 ''Book not found''), seed_db (Date 2024 1 1), [Select Books])"
proof -
  have r: "sqlite_int 9999"
    by (simp add: sqlite_int_def)
  have a: "9999 \<notin> a_id ` set (authors (seed_db (Date 2024 1 1)))"
    and p: "9999 \<notin> p_id ` set (publishers (seed_db (Date 2024 1 1)))"
    and b: "9999 \<notin> b_id ` set (books (seed_db (Date 2024 1 1)))"
    by (simp_all add: seed_ids)
  show ?thesis
    using r a p b
      missing_id_not_found [of 9999 "seed_db (Date 2024 1 1)" _ 9999 _ 9999]
    by blast
qed

text \<open>C4 as stated fails for an id the driver cannot bind: no author has the id
  \<open>2 ^ 63\<close>, and the request for it ends in \<open>OverflowError\<close>, which is answered with
  status 500.\<close>

theorem missing_id_counterexample:
  "9223372036854775808 \<notin> a_id ` set (authors (seed_db (Date 2024 1 1))) \<and>
   read_author 9223372036854775808 (seed_db (Date 2024 1 1)) =
     (Inl OverflowError, seed_db (Date 2024 1 1), [Select Authors]) \<and>
   status_code OverflowError = 500"
  by (simp add: seed_ids read_author_def sql_select_author_def sqlite_int_def)

subsection \<open>The referential checks of the book handlers\<close>

lemma validate_author_id_missing:
  "sqlite_int a \<Longrightarrow> a \<notin> a_id ` set (authors db) \<Longrightarrow>
     validate_author_id (Some a) db =
       (Some (HTTPException 404 ''Author not found''), [Select Authors])"
  by (simp add: validate_author_id_def select_author_absent)


lemma validate_author_id_overflow:
  "\<not> sqlite_int a \<Longrightarrow> validate_author_id (Some a) db = (Some OverflowError, [Select Authors])"
  by (simp add: validate_author_id_def sql_select_author_def)

lemma validate_author_id_pass:
  assumes "case author_id of None \<Rightarrow> True | Some a \<Rightarrow> a \<in> a_id ` set (authors db)"
  shows "validate_author_id author_id db =
           (None, case author_id of None \<Rightarrow> [] | Some a \<Rightarrow> [Select Authors])"
proof (cases author_id)
  case None
  then show ?thesis by (simp add: validate_author_id_def)
next
  case (Some a)
  with assms have "a \<in> a_id ` set (authors db)" by simp
  then obtain r where "sql_select_author a db = Inr (Some r)"
    using select_author_present by blast
  with Some show ?thesis by (simp add: validate_author_id_def)
qed

lemma validate_publisher_id_pass:
  assumes "case publisher_id of None \<Rightarrow> True | Some p \<Rightarrow> p \<in> p_id ` set (publishers db)"
  shows "validate_publisher_id publisher_id db =
           (None, case publisher_id of None \<Rightarrow> [] | Some p \<Rightarrow> [Select Publishers])"
proof (cases publisher_id)
  case None
  then show ?thesis by (simp add: validate_publisher_id_def)
next
  case (Some p)
  with assms have "p \<in> p_id ` set (publishers db)" by simp
  then obtain r where "sql_select_publisher p db = Inr (Some r)"
    using select_publisher_present by blast
  with Some show ?thesis by (simp add: validate_publisher_id_def)
qed

lemma create_book_author_missing:
  "b_author_id book = Some a \<Longrightarrow> sqlite_int a \<Longrightarrow> a \<notin> a_id ` set (authors db) \<Longrightarrow>
     create_book book db =
       (Inl (HTTPException 404 ''Author not found''), db, [Select Authors])"
  by (simp add: create_book_def validate_author_id_missing)

lemma create_book_author_overflow:
  "b_author_id book = Some a \<Longrightarrow> \<not> sqlite_int a \<Longrightarrow>
     create_book book db = (Inl OverflowError, db, [Select Authors])"
  by (simp add: create_book_def validate_author_id_overflow)

lemma update_book_missing:
  "sqlite_int book_id \<Longrightarrow> book_id \<notin> b_id ` set (books db) \<Longrightarrow>
     update_book book_id book db =
       (Inl (HTTPException 404 ''Book not found''), db, [Select Books])"
  by (simp add: update_book_def select_book_absent)

lemma update_book_author_missing:
  "b_author_id book = Some a \<Longrightarrow> sqlite_int a \<Longrightarrow> a \<notin> a_id ` set (authors db) \<Longrightarrow>
   book_id \<in> b_id ` set (books db) \<Longrightarrow>
     update_book book_id book db =
       (Inl (HTTPException 404 ''Author not found''), db, [Select Books, Select Authors])"
  using select_book_present [of book_id db]
  by (auto simp: update_book_def validate_author_id_missing)






text \<open>C10 (as amended): when author_id and publisher_id are both set, neither matches
  a row and the author_id lies in the 64-bit range, \<open>create_book\<close> reports "Author not
  found", and so does \<open>update_book\<close> on a book id that exists; the publisher lookup is
  not executed. On a book id in the 64-bit range that does not exist \<open>update_book\<close>
  reports "Book not found" before either reference is looked at.\<close>

theorem author_checked_before_publisher:
  assumes "b_author_id book = Some a" and "b_publisher_id book = Some p"
    and "sqlite_int a"
    and "a \<notin> a_id ` set (authors db)" and "p \<notin> p_id ` set (publishers db)"
  shows "create_book book db =
           (Inl (HTTPException 404 ''Author not found''), db, [Select Authors]) \<and>
         (book_id \<in> b_id ` set (books db) \<longrightarrow>
            update_book book_id book db =
              (Inl (HTTPException 404 ''Author not found''), db,
               [Select Books, Select Authors])) \<and>
         (sqlite_int book_id \<and> book_id \<notin> b_id ` set (books db) \<longrightarrow>
            update_book book_id book db =
              (Inl (HTTPException 404 ''Book not found''), db, [Select Books]))"
proof (intro conjI impI)
  show "create_book book db =
          (Inl (HTTPException 404 ''Author not found''), db, [Select Authors])"
    using assms(1,3,4) by (rule create_book_author_missing)
next
  assume "book_id \<in> b_id ` set (books db)"
  then show "update_book book_id book db =
          (Inl (HTTPException 404 ''Author not found''), db, [Select Books, Select Authors])"
    using update_book_author_missing [OF assms(1,3,4)] by simp
next
  assume "sqlite_int book_id \<and> book_id \<notin> b_id ` set (books db)"
  then show "update_book book_id book db =
          (Inl (HTTPException 404 ''Book not found''), db, [Select Books])"
    by (simp add: update_book_missing)
qed

text \<open>Author 7 and publisher 8 are unknown to the seeded store; book 2 exists, book 3
  does not.\<close>

theorem author_checked_before_publisher_witness:
  "create_book
     \<lparr>b_title = ''Animal Farm'', b_description = None, b_isbn = None,
       b_publication_date = None, b_price = None, b_genre = None,
       b_author_id = Some 7, b_publisher_id = Some 8\<rparr>
     (seed_db (Date 2024 1 1)) =
     (Inl (HTTPException 404 ''Author not found''), seed_db (Date 2024 1 1),
      [Select Authors]) \<and>
   update_book 2
     \<lparr>b_title = ''Animal Farm'', b_description = None, b_isbn = None,
       b_publication_date = None, b_price = None, b_genre = None,
       b_author_id = Some 7, b_publisher_id = Some 8\<rparr>
     (seed_db (Date 2024 1 1)) =
     (Inl (HTTPException 404 ''Author not found''), seed_db (Date 2024 1 1),
      [Select Books, Select Authors]) \<and>
   update_book 3
     \<lparr>b_title = ''Animal Farm'', b_description = None, b_isbn = None,
       b_publication_date = None, b_price = None, b_genre = None,
       b_author_id = Some 7, b_publisher_id = Some 8\<rparr>
     (seed_db (Date 2024 1 1)) =
     (Inl (HTTPException 404 ''Book not found''), seed_db (Date 2024 1 1),
      [Select Books])"
proof -
  let ?db = "seed_db (Date 2024 1 1)"
  let ?b = "\<lparr>b_title = ''Animal Farm'', b_description = None, b_isbn = None,
       b_publication_date = None, b_price = None, b_genre = None,
       b_author_id = Some 7, b_publisher_id = Some 8\<rparr>"
  have ids: "sqlite_int 7" "7 \<notin> a_id ` set (authors ?db)"
    "8 \<notin> p_id ` set (publishers ?db)"
    "2 \<in> b_id ` set (books ?db)" "sqlite_int 3" "3 \<notin> b_id ` set (books ?db)"
    by (simp_all add: seed_ids sqlite_int_def)
  have a: "b_author_id ?b = Some 7" and p: "b_publisher_id ?b = Some 8"
    by simp_all
  show ?thesis
    using author_checked_before_publisher [OF a p ids(1,2,3), of 2]
      author_checked_before_publisher [OF a p ids(1,2,3), of 3] ids(4,5,6)
    by simp
qed

text \<open>C10 as stated fails in two places: for an update of book 3, which the seeded
  store does not hold, the error reported is "Book not found"; and for the author_id
  \<open>2 ^ 63\<close>, which the driver cannot bind, it is \<open>OverflowError\<close>.\<close>

theorem author_checked_before_publisher_counterexample:
  "7 \<notin> a_id ` set (authors (seed_db (Date 2024 1 1))) \<and>
   8 \<notin> p_id ` set (publishers (seed_db (Date 2024 1 1))) \<and>
   9223372036854775808 \<notin> a_id ` set (authors (seed_db (Date 2024 1 1))) \<and>
   fst (update_book 3
     \<lparr>b_title = ''Animal Farm'', b_description = None, b_isbn = None,
       b_publication_date = None, b_price = None, b_genre = None,
       b_author_id = Some 7, b_publisher_id = Some 8\<rparr>
     (seed_db (Date 2024 1 1))) = Inl (HTTPException 404 ''Book not found'') \<and>
   fst (create_book
     \<lparr>b_title = ''Animal Farm'', b_description = None, b_isbn = None,
       b_publication_date = None, b_price = None, b_genre = None,
       b_author_id = Some 9223372036854775808, b_publisher_id = Some 8\<rparr>
     (seed_db (Date 2024 1 1))) = Inl OverflowError"
proof -
  let ?db = "seed_db (Date 2024 1 1)"
  have ids: "7 \<notin> a_id ` set (authors ?db)" "8 \<notin> p_id ` set (publishers ?db)"
    "3 \<notin> b_id ` set (books ?db)" "9223372036854775808 \<notin> a_id ` set (authors ?db)"
    by (simp_all add: seed_ids)
  have r: "sqlite_int 3" "\<not> sqlite_int 9223372036854775808"
    by (simp_all add: sqlite_int_def)
  show ?thesis
    using ids r
    by (simp add: update_book_missing create_book_author_overflow)
qed

subsection \<open>Writes the store accepts\<close>

text \<open>A UNIQUE conflict, said with sets: the value is not NULL and some row holds it.\<close>

lemma unique_conflict_iff:
  "unique_conflict col v rows \<longleftrightarrow> v \<noteq> None \<and> v \<in> col ` set rows"
  by (cases v) (force simp: unique_conflict_def list_ex_iff)+

lemma list_ex_id_iff: "list_ex (\<lambda>r. f r = i) xs \<longleftrightarrow> i \<in> f ` set xs"
  by (auto simp: list_ex_iff)

text \<open>A create request that meets no conflict returns the row it stored: the input
  fields, a rowid the table did not hold, and the row appended to its table.\<close>

lemma create_author_success:
  assumes "a_email author = None \<or> a_email author \<notin> a_email ` set (authors db)"
    and "sqlite_int (next_rowid (sint (authors_seq db)) (map a_id (authors db)))"
  shows "\<exists>r db'. create_author today author db =
                   (Inr r, db', [Insert Authors, Commit, Select Authors]) \<and>
                 AuthorBase.truncate r = author \<and> a_date_registered r = Some today \<and>
                 a_id r \<notin> a_id ` set (authors db) \<and>
                 db' = db\<lparr>authors := authors db @ [r], authors_seq := a_rowid r\<rparr>"
proof -
  let ?n = "next_rowid (sint (authors_seq db)) (map a_id (authors db))"
  let ?r = "\<lparr>a_name = a_name author, a_email = a_email author, a_bio = a_bio author,
             a_rowid = word_of_int ?n, a_date_registered = Some today\<rparr>"
  let ?db' = "db\<lparr>authors := authors db @ [?r], authors_seq := word_of_int ?n\<rparr>"
  have fresh: "?n \<notin> a_id ` set (authors db)"
    using next_rowid_fresh [of "sint (authors_seq db)" "map a_id (authors db)"] by simp
  have id: "a_id ?r = ?n"
    using assms(2) by (simp add: a_id_def sint_word_of_int)
  have "\<not> unique_conflict a_email (a_email author) (authors db)"
    using assms by (auto simp: unique_conflict_iff)
  then have ins: "sql_insert_author today author db = Inr (?n, ?db')"
    using assms(2) by (simp add: sql_insert_author_def Let_def)
  have sel: "sql_select_author ?n ?db' = Inr (Some ?r)"
    using fresh id assms(2)
    by (simp add: sql_select_author_def find_append_fresh)
  have "create_author today author db =
          (Inr ?r, ?db', [Insert Authors, Commit, Select Authors])"
    by (simp add: create_author_def ins sel)
  moreover have "AuthorBase.truncate ?r = author"
    by (simp add: AuthorBase.truncate_def)
  moreover have "a_rowid ?r = word_of_int ?n"
    by simp
  ultimately show ?thesis using fresh id by auto
qed

lemma create_publisher_success:
  assumes "p_email publisher = None \<or> p_email publisher \<notin> p_email ` set (publishers db)"
    and "sqlite_int (next_rowid (sint (publishers_seq db)) (map p_id (publishers db)))"
  shows "\<exists>r db'. create_publisher publisher db =
                   (Inr r, db', [Insert Publishers, Commit, Select Publishers]) \<and>
                 PublisherBase.truncate r = publisher \<and>
                 p_id r \<notin> p_id ` set (publishers db) \<and>
                 db' = db\<lparr>publishers := publishers db @ [r], publishers_seq := p_rowid r\<rparr>"
proof -
  let ?n = "next_rowid (sint (publishers_seq db)) (map p_id (publishers db))"
  let ?r = "\<lparr>p_name = p_name publisher, p_address = p_address publisher,
             p_phone = p_phone publisher, p_email = p_email publisher, p_rowid = word_of_int ?n\<rparr>"
  let ?db' = "db\<lparr>publishers := publishers db @ [?r], publishers_seq := word_of_int ?n\<rparr>"
  have fresh: "?n \<notin> p_id ` set (publishers db)"
    using next_rowid_fresh [of "sint (publishers_seq db)" "map p_id (publishers db)"] by simp
  have id: "p_id ?r = ?n"
    using assms(2) by (simp add: p_id_def sint_word_of_int)
  have "\<not> unique_conflict p_email (p_email publisher) (publishers db)"
    using assms by (auto simp: unique_conflict_iff)
  then have ins: "sql_insert_publisher publisher db = Inr (?n, ?db')"
    using assms(2) by (simp add: sql_insert_publisher_def Let_def)
  have sel: "sql_select_publisher ?n ?db' = Inr (Some ?r)"
    using fresh id assms(2)
    by (simp add: sql_select_publisher_def find_append_fresh)
  have "create_publisher publisher db =
          (Inr ?r, ?db', [Insert Publishers, Commit, Select Publishers])"
    by (simp add: create_publisher_def ins sel)
  moreover have "PublisherBase.truncate ?r = publisher"
    by (simp add: PublisherBase.truncate_def)
  moreover have "p_rowid ?r = word_of_int ?n"
    by simp
  ultimately show ?thesis using fresh id by auto
qed

lemma create_book_success:
  assumes "case b_author_id book of None \<Rightarrow> True | Some a \<Rightarrow> a \<in> a_id ` set (authors db)"
    and "case b_publisher_id book of None \<Rightarrow> True
         | Some p \<Rightarrow> p \<in> p_id ` set (publishers db)"
    and "b_isbn book = None \<or> b_isbn book \<notin> b_isbn ` set (books db)"
    and "sqlite_int (next_rowid (sint (books_seq db)) (map b_id (books db)))"
  shows "\<exists>r db'. create_book book db =
                   (Inr r, db',
                    (case b_author_id book of None \<Rightarrow> [] | Some a \<Rightarrow> [Select Authors]) @
                    (case b_publisher_id book of None \<Rightarrow> [] | Some p \<Rightarrow> [Select Publishers]) @
                    [Insert Books, Commit, Select Books]) \<and>
                 BookBase.truncate r = book \<and>
                 b_id r \<notin> b_id ` set (books db) \<and>
                 db' = db\<lparr>books := books db @ [r], books_seq := b_rowid r\<rparr>"
proof -
  let ?n = "next_rowid (sint (books_seq db)) (map b_id (books db))"
  let ?r = "\<lparr>b_title = b_title book, b_description = b_description book,
             b_isbn = b_isbn book, b_publication_date = b_publication_date book,
             b_price = b_price book, b_genre = b_genre book,
             b_author_id = b_author_id book, b_publisher_id = b_publisher_id book,
             b_rowid = word_of_int ?n\<rparr>"
  let ?db' = "db\<lparr>books := books db @ [?r], books_seq := word_of_int ?n\<rparr>"
  have fresh: "?n \<notin> b_id ` set (books db)"
    using next_rowid_fresh [of "sint (books_seq db)" "map b_id (books db)"] by simp
  have id: "b_id ?r = ?n"
    using assms(4) by (simp add: b_id_def sint_word_of_int)
  have "\<not> unique_conflict b_isbn (b_isbn book) (books db)"
    using assms(3) by (auto simp: unique_conflict_iff)
  then have ins: "sql_insert_book book db = Inr (?n, ?db')"
    using assms(4) by (simp add: sql_insert_book_def Let_def)
  have sel: "sql_select_book ?n ?db' = Inr (Some ?r)"
    using fresh id assms(4)
    by (simp add: sql_select_book_def find_append_fresh)
  have "create_book book db =
          (Inr ?r, ?db',
           (case b_author_id book of None \<Rightarrow> [] | Some a \<Rightarrow> [Select Authors]) @
           (case b_publisher_id book of None \<Rightarrow> [] | Some p \<Rightarrow> [Select Publishers]) @
           [Insert Books, Commit, Select Books])"
    by (simp add: create_book_def validate_author_id_pass [OF assms(1)]
        validate_publisher_id_pass [OF assms(2)] ins sel)
  moreover have "BookBase.truncate ?r = book"
    by (simp add: BookBase.truncate_def)
  moreover have "b_rowid ?r = word_of_int ?n"
    by simp
  ultimately show ?thesis using fresh id by auto
qed

text \<open>An update request on an existing id that meets no conflict (for a book: whose
  references pass their checks) returns the stored row with every input field written
  over it, and a lookup of the id in the new store finds that row.\<close>

lemma update_author_success:
  assumes "author_id \<in> a_id ` set (authors db)"
    and "a_email author = None \<or>
         a_email author \<notin> a_email ` {r \<in> set (authors db). a_id r \<noteq> author_id}"
  shows "\<exists>old new db'.
           sql_select_author author_id db = Inr (Some old) \<and>
           new = old\<lparr>a_name := a_name author, a_email := a_email author,
                     a_bio := a_bio author\<rparr> \<and>
           update_author author_id author db =
             (Inr new, db', [Select Authors, Update Authors, Commit, Select Authors]) \<and>
           sql_select_author author_id db' = Inr (Some new) \<and>
           publishers db' = publishers db \<and> books db' = books db"
proof -
  let ?g = "\<lambda>r::Author. r\<lparr>a_name := a_name author, a_email := a_email author,
                             a_bio := a_bio author\<rparr>"
  let ?db' = "db\<lparr>authors := map (\<lambda>r. if a_id r = author_id then ?g r else r) (authors db)\<rparr>"
  have range: "sqlite_int author_id"
    using assms(1) by (rule stored_author_id)
  obtain old where old: "sql_select_author author_id db = Inr (Some old)"
    using select_author_present [OF assms(1)] by blast
  have "\<not> unique_conflict a_email (a_email author)
            (filter (\<lambda>r. a_id r \<noteq> author_id) (authors db))"
    using assms(2) by (auto simp: unique_conflict_iff)
  then have upd: "sql_update_author author_id author db = Inr ?db'"
    by (simp add: sql_update_author_def)
  have "find (\<lambda>r. a_id r = author_id) (authors ?db') =
          map_option ?g (find (\<lambda>r. a_id r = author_id) (authors db))"
    using find_map_update [of a_id ?g author_id "authors db"] by (simp add: a_id_def)
  then have sel: "sql_select_author author_id ?db' = Inr (Some (?g old))"
    using old range by (simp add: sql_select_author_def)
  have "update_author author_id author db =
          (Inr (?g old), ?db', [Select Authors, Update Authors, Commit, Select Authors])"
    by (simp add: update_author_def old upd sel)
  then show ?thesis using old sel by auto
qed

lemma update_publisher_success:
  assumes "publisher_id \<in> p_id ` set (publishers db)"
    and "p_email publisher = None \<or>
         p_email publisher \<notin> p_email ` {r \<in> set (publishers db). p_id r \<noteq> publisher_id}"
  shows "\<exists>old new db'.
           sql_select_publisher publisher_id db = Inr (Some old) \<and>
           new = old\<lparr>p_name := p_name publisher, p_address := p_address publisher,
                     p_phone := p_phone publisher, p_email := p_email publisher\<rparr> \<and>
           update_publisher publisher_id publisher db =
             (Inr new, db',
              [Select Publishers, Update Publishers, Commit, Select Publishers]) \<and>
           sql_select_publisher publisher_id db' = Inr (Some new) \<and>
           authors db' = authors db \<and> books db' = books db"
proof -
  let ?g = "\<lambda>r::Publisher. r\<lparr>p_name := p_name publisher, p_address := p_address publisher,
                                p_phone := p_phone publisher, p_email := p_email publisher\<rparr>"
  let ?db' = "db\<lparr>publishers :=
                  map (\<lambda>r. if p_id r = publisher_id then ?g r else r) (publishers db)\<rparr>"
  have range: "sqlite_int publisher_id"
    using assms(1) by (rule stored_publisher_id)
  obtain old where old: "sql_select_publisher publisher_id db = Inr (Some old)"
    using select_publisher_present [OF assms(1)] by blast
  have "\<not> unique_conflict p_email (p_email publisher)
            (filter (\<lambda>r. p_id r \<noteq> publisher_id) (publishers db))"
    using assms(2) by (auto simp: unique_conflict_iff)
  then have upd: "sql_update_publisher publisher_id publisher db = Inr ?db'"
    by (simp add: sql_update_publisher_def)
  have "find (\<lambda>r. p_id r = publisher_id) (publishers ?db') =
          map_option ?g (find (\<lambda>r. p_id r = publisher_id) (publishers db))"
    using find_map_update [of p_id ?g publisher_id "publishers db"] by (simp add: p_id_def)
  then have sel: "sql_select_publisher publisher_id ?db' = Inr (Some (?g old))"
    using old range by (simp add: sql_select_publisher_def)
  have "update_publisher publisher_id publisher db =
          (Inr (?g old), ?db',
           [Select Publishers, Update Publishers, Commit, Select Publishers])"
    by (simp add: update_publisher_def old upd sel)
  then show ?thesis using old sel by auto
qed

lemma update_book_success:
  assumes "book_id \<in> b_id ` set (books db)"
    and "case b_author_id book of None \<Rightarrow> True | Some a \<Rightarrow> a \<in> a_id ` set (authors db)"
    and "case b_publisher_id book of None \<Rightarrow> True
         | Some p \<Rightarrow> p \<in> p_id ` set (publishers db)"
    and "b_isbn book = None \<or>
         b_isbn book \<notin> b_isbn ` {r \<in> set (books db). b_id r \<noteq> book_id}"
  shows "\<exists>old new db'.
           sql_select_book book_id db = Inr (Some old) \<and>
           new = old\<lparr>b_title := b_title book, b_description := b_description book,
                     b_isbn := b_isbn book, b_publication_date := b_publication_date book,
                     b_price := b_price book, b_genre := b_genre book,
                     b_author_id := b_author_id book,
                     b_publisher_id := b_publisher_id book\<rparr> \<and>
           update_book book_id book db =
             (Inr new, db',
              Select Books #
              (case b_author_id book of None \<Rightarrow> [] | Some a \<Rightarrow> [Select Authors]) @
              (case b_publisher_id book of None \<Rightarrow> [] | Some p \<Rightarrow> [Select Publishers]) @
              [Update Books, Commit, Select Books]) \<and>
           sql_select_book book_id db' = Inr (Some new) \<and>
           db' = db\<lparr>books :=
                   map (\<lambda>r. if b_id r = book_id
                            then r\<lparr>b_title := b_title book,
                                   b_description := b_description book,
                                   b_isbn := b_isbn book,
                                   b_publication_date := b_publication_date book,
                                   b_price := b_price book, b_genre := b_genre book,
                                   b_author_id := b_author_id book,
                                   b_publisher_id := b_publisher_id book\<rparr>
                            else r) (books db)\<rparr>"
proof -
  let ?g = "\<lambda>r::Book. r\<lparr>b_title := b_title book, b_description := b_description book,
                     b_isbn := b_isbn book, b_publication_date := b_publication_date book,
                     b_price := b_price book, b_genre := b_genre book,
                     b_author_id := b_author_id book,
                     b_publisher_id := b_publisher_id book\<rparr>"
  let ?db' = "db\<lparr>books := map (\<lambda>r. if b_id r = book_id then ?g r else r) (books db)\<rparr>"
  have range: "sqlite_int book_id"
    using assms(1) by (rule stored_book_id)
  obtain old where old: "sql_select_book book_id db = Inr (Some old)"
    using select_book_present [OF assms(1)] by blast
  have "\<not> unique_conflict b_isbn (b_isbn book)
            (filter (\<lambda>r. b_id r \<noteq> book_id) (books db))"
    using assms(4) by (auto simp: unique_conflict_iff)
  then have upd: "sql_update_book book_id book db = Inr ?db'"
    by (simp add: sql_update_book_def)
  have "find (\<lambda>r. b_id r = book_id) (books ?db') =
          map_option ?g (find (\<lambda>r. b_id r = book_id) (books db))"
    using find_map_update [of b_id ?g book_id "books db"] by (simp add: b_id_def)
  then have sel: "sql_select_book book_id ?db' = Inr (Some (?g old))"
    using old range by (simp add: sql_select_book_def)
  have "update_book book_id book db =
          (Inr (?g old), ?db',
           Select Books #
           (case b_author_id book of None \<Rightarrow> [] | Some a \<Rightarrow> [Select Authors]) @
           (case b_publisher_id book of None \<Rightarrow> [] | Some p \<Rightarrow> [Select Publishers]) @
           [Update Books, Commit, Select Books])"
    by (simp add: update_book_def old upd sel validate_author_id_pass [OF assms(2)]
        validate_publisher_id_pass [OF assms(3)])
  then show ?thesis using old sel by auto
qed

subsection \<open>Update replaces the record\<close>

text \<open>C6: for every id a row of the table carries and every update input the
  operation accepts (no other row holds its email or isbn; for a book, each reference is
  null or matches a row), update returns the stored row with each of its input fields
  overwritten by the input's field, including the fields the input leaves at \<open>None\<close>;
  a get by that id in the resulting store returns exactly this row. The id, and an
  author's date_registered, have no input field and keep their values.\<close>

theorem update_replaces_all_fields:
  "(author_id \<in> a_id ` set (authors db) \<and>
    (a_email author = None \<or>
     a_email author \<notin> a_email ` {r \<in> set (authors db). a_id r \<noteq> author_id}) \<longrightarrow>
      (\<exists>old db' log.
         fst (read_author author_id db) = Inr old \<and>
         update_author author_id author db =
           (Inr (old\<lparr>a_name := a_name author, a_email := a_email author,
                     a_bio := a_bio author\<rparr>), db', log) \<and>
         fst (read_author author_id db') =
           Inr (old\<lparr>a_name := a_name author, a_email := a_email author,
                    a_bio := a_bio author\<rparr>))) \<and>
   (publisher_id \<in> p_id ` set (publishers db) \<and>
    (p_email publisher = None \<or>
     p_email publisher \<notin> p_email ` {r \<in> set (publishers db). p_id r \<noteq> publisher_id}) \<longrightarrow>
      (\<exists>old db' log.
         fst (read_publisher publisher_id db) = Inr old \<and>
         update_publisher publisher_id publisher db =
           (Inr (old\<lparr>p_name := p_name publisher, p_address := p_address publisher,
                     p_phone := p_phone publisher, p_email := p_email publisher\<rparr>),
            db', log) \<and>
         fst (read_publisher publisher_id db') =
           Inr (old\<lparr>p_name := p_name publisher, p_address := p_address publisher,
                    p_phone := p_phone publisher, p_email := p_email publisher\<rparr>))) \<and>
   (book_id \<in> b_id ` set (books db) \<and>
    (case b_author_id book of None \<Rightarrow> True | Some a \<Rightarrow> a \<in> a_id ` set (authors db)) \<and>
    (case b_publisher_id book of None \<Rightarrow> True
     | Some p \<Rightarrow> p \<in> p_id ` set (publishers db)) \<and>
    (b_isbn book = None \<or>
     b_isbn book \<notin> b_isbn ` {r \<in> set (books db). b_id r \<noteq> book_id}) \<longrightarrow>
      (\<exists>old db' log.
         fst (read_book book_id db) = Inr old \<and>
         update_book book_id book db =
           (Inr (old\<lparr>b_title := b_title book, b_description := b_description book,
                     b_isbn := b_isbn book,
                     b_publication_date := b_publication_date book,
                     b_price := b_price book, b_genre := b_genre book,
                     b_author_id := b_author_id book,
                     b_publisher_id := b_publisher_id book\<rparr>), db', log) \<and>
         fst (read_book book_id db') =
           Inr (old\<lparr>b_title := b_title book, b_description := b_description book,
                    b_isbn := b_isbn book,
                    b_publication_date := b_publication_date book,
                    b_price := b_price book, b_genre := b_genre book,
                    b_author_id := b_author_id book,
                    b_publisher_id := b_publisher_id book\<rparr>)))"
proof (intro conjI impI)
  assume h: "author_id \<in> a_id ` set (authors db) \<and>
    (a_email author = None \<or>
     a_email author \<notin> a_email ` {r \<in> set (authors db). a_id r \<noteq> author_id})"
  from update_author_success [of author_id db author] h
  obtain old new db' where
    "sql_select_author author_id db = Inr (Some old)"
    "new = old\<lparr>a_name := a_name author, a_email := a_email author, a_bio := a_bio author\<rparr>"
    "update_author author_id author db =
       (Inr new, db', [Select Authors, Update Authors, Commit, Select Authors])"
    "sql_select_author author_id db' = Inr (Some new)"
    by blast
  then show "\<exists>old db' log.
         fst (read_author author_id db) = Inr old \<and>
         update_author author_id author db =
           (Inr (old\<lparr>a_name := a_name author, a_email := a_email author,
                     a_bio := a_bio author\<rparr>), db', log) \<and>
         fst (read_author author_id db') =
           Inr (old\<lparr>a_name := a_name author, a_email := a_email author,
                    a_bio := a_bio author\<rparr>)"
    by (auto simp: read_author_def)
next
  assume h: "publisher_id \<in> p_id ` set (publishers db) \<and>
    (p_email publisher = None \<or>
     p_email publisher \<notin> p_email ` {r \<in> set (publishers db). p_id r \<noteq> publisher_id})"
  from update_publisher_success [of publisher_id db publisher] h
  obtain old new db' where
    "sql_select_publisher publisher_id db = Inr (Some old)"
    "new = old\<lparr>p_name := p_name publisher, p_address := p_address publisher,
                p_phone := p_phone publisher, p_email := p_email publisher\<rparr>"
    "update_publisher publisher_id publisher db =
       (Inr new, db', [Select Publishers, Update Publishers, Commit, Select Publishers])"
    "sql_select_publisher publisher_id db' = Inr (Some new)"
    by blast
  then show "\<exists>old db' log.
         fst (read_publisher publisher_id db) = Inr old \<and>
         update_publisher publisher_id publisher db =
           (Inr (old\<lparr>p_name := p_name publisher, p_address := p_address publisher,
                     p_phone := p_phone publisher, p_email := p_email publisher\<rparr>),
            db', log) \<and>
         fst (read_publisher publisher_id db') =
           Inr (old\<lparr>p_name := p_name publisher, p_address := p_address publisher,
                    p_phone := p_phone publisher, p_email := p_email publisher\<rparr>)"
    by (auto simp: read_publisher_def)
next
  assume h: "book_id \<in> b_id ` set (books db) \<and>
    (case b_author_id book of None \<Rightarrow> True | Some a \<Rightarrow> a \<in> a_id ` set (authors db)) \<and>
    (case b_publisher_id book of None \<Rightarrow> True
     | Some p \<Rightarrow> p \<in> p_id ` set (publishers db)) \<and>
    (b_isbn book = None \<or>
     b_isbn book \<notin> b_isbn ` {r \<in> set (books db). b_id r \<noteq> book_id})"
  from update_book_success [of book_id db book] h
  obtain old new db' log where
    "sql_select_book book_id db = Inr (Some old)"
    "new = old\<lparr>b_title := b_title book, b_description := b_description book,
                b_isbn := b_isbn book, b_publication_date := b_publication_date book,
                b_price := b_price book, b_genre := b_genre book,
                b_author_id := b_author_id book,
                b_publisher_id := b_publisher_id book\<rparr>"
    "update_book book_id book db = (Inr new, db', log)"
    "sql_select_book book_id db' = Inr (Some new)"
    by blast
  then show "\<exists>old db' log.
         fst (read_book book_id db) = Inr old \<and>
         update_book book_id book db =
           (Inr (old\<lparr>b_title := b_title book, b_description := b_description book,
                     b_isbn := b_isbn book,
                     b_publication_date := b_publication_date book,
                     b_price := b_price book, b_genre := b_genre book,
                     b_author_id := b_author_id book,
                     b_publisher_id := b_publisher_id book\<rparr>), db', log) \<and>
         fst (read_book book_id db') =
           Inr (old\<lparr>b_title := b_title book, b_description := b_description book,
                    b_isbn := b_isbn book,
                    b_publication_date := b_publication_date book,
                    b_price := b_price book, b_genre := b_genre book,
                    b_author_id := b_author_id book,
                    b_publisher_id := b_publisher_id book\<rparr>)"
    by (auto simp: read_book_def)
qed

text \<open>On the seeded store: author 1, publisher 2 (keeping its own email) and book 1
  (keeping its own isbn) are replaced; the fields the inputs leave out come back as
  \<open>None\<close>, not as the former values.\<close>

theorem update_replaces_all_fields_witness:
  "fst (update_author 1 \<lparr>a_name = ''J. Austen'', a_email = None, a_bio = None\<rparr>
          (seed_db (Date 2024 1 1))) =
     Inr \<lparr>a_name = ''J. Austen'', a_email = None, a_bio = None, a_rowid = 1,
           a_date_registered = Some (Date 2024 1 1)\<rparr> \<and>
   fst (read_author 1
          (fst (snd (update_author 1 \<lparr>a_name = ''J. Austen'', a_email = None, a_bio = None\<rparr>
             (seed_db (Date 2024 1 1)))))) =
     Inr \<lparr>a_name = ''J. Austen'', a_email = None, a_bio = None, a_rowid = 1,
           a_date_registered = Some (Date 2024 1 1)\<rparr> \<and>
   fst (read_publisher 2
          (fst (snd (update_publisher 2
             \<lparr>p_name = ''Harper'', p_address = None, p_phone = Some ''555-0000'',
               p_email = Some ''info@harpercollins.com''\<rparr>
             (seed_db (Date 2024 1 1)))))) =
     Inr \<lparr>p_name = ''Harper'', p_address = None, p_phone = Some ''555-0000'',
           p_email = Some ''info@harpercollins.com'', p_rowid = 2\<rparr> \<and>
   fst (read_book 1
          (fst (snd (update_book 1
             \<lparr>b_title = ''Emma'', b_description = None, b_isbn = Some ''9780141439518'',
               b_publication_date = None, b_price = Some 5, b_genre = None,
               b_author_id = Some 1, b_publisher_id = None\<rparr>
             (seed_db (Date 2024 1 1)))))) =
     Inr \<lparr>b_title = ''Emma'', b_description = None, b_isbn = Some ''9780141439518'',
           b_publication_date = None, b_price = Some 5, b_genre = None,
           b_author_id = Some 1, b_publisher_id = None, b_rowid = 1\<rparr>"
proof -
  let ?db = "seed_db (Date 2024 1 1)"
  let ?a = "\<lparr>a_name = ''J. Austen'', a_email = None, a_bio = None\<rparr>"
  let ?p = "\<lparr>p_name = ''Harper'', p_address = None, p_phone = Some ''555-0000'',
             p_email = Some ''info@harpercollins.com''\<rparr>"
  let ?b = "\<lparr>b_title = ''Emma'', b_description = None, b_isbn = Some ''9780141439518'',
             b_publication_date = None, b_price = Some 5, b_genre = None,
             b_author_id = Some 1, b_publisher_id = None\<rparr>"
  note inst = update_replaces_all_fields [of 1 ?db ?a 2 ?p 1 ?b]
  have pre_a: "1 \<in> a_id ` set (authors ?db) \<and>
      (a_email ?a = None \<or> a_email ?a \<notin> a_email ` {r \<in> set (authors ?db). a_id r \<noteq> 1})"
    by (simp add: seed_db_def a_id_def)
  have pre_p: "2 \<in> p_id ` set (publishers ?db) \<and>
      (p_email ?p = None \<or>
       p_email ?p \<notin> p_email ` {r \<in> set (publishers ?db). p_id r \<noteq> 2})"
    by (auto simp: seed_db_def a_id_def p_id_def b_id_def)
  have pre_b: "1 \<in> b_id ` set (books ?db) \<and>
      (case b_author_id ?b of None \<Rightarrow> True | Some a \<Rightarrow> a \<in> a_id ` set (authors ?db)) \<and>
      (case b_publisher_id ?b of None \<Rightarrow> True
       | Some p \<Rightarrow> p \<in> p_id ` set (publishers ?db)) \<and>
      (b_isbn ?b = None \<or> b_isbn ?b \<notin> b_isbn ` {r \<in> set (books ?db). b_id r \<noteq> 1})"
    by (auto simp: seed_db_def a_id_def p_id_def b_id_def)
  have old_a: "fst (read_author 1 ?db) =
      Inr \<lparr>a_name = ''Jane Austen'', a_email = Some ''jane@example.com'',
            a_bio = Some ''Famous English novelist known for her six major novels'',
            a_rowid = 1, a_date_registered = Some (Date 2024 1 1)\<rparr>"
    by (simp add: read_author_def sql_select_author_def seed_db_def a_id_def sqlite_int_def)
  have old_p: "fst (read_publisher 2 ?db) =
      Inr \<lparr>p_name = ''HarperCollins'', p_address = Some ''456 Book Ave, CA'',
            p_phone = Some ''555-5678'', p_email = Some ''info@harpercollins.com'',
            p_rowid = 2\<rparr>"
    by (simp add: read_publisher_def sql_select_publisher_def seed_db_def p_id_def sqlite_int_def)
  have old_b: "fst (read_book 1 ?db) =
      Inr \<lparr>b_title = ''Pride and Prejudice'',
            b_description = Some ''A romantic novel of manners'',
            b_isbn = Some ''9780141439518'', b_publication_date = Some (Date 1813 1 28),
            b_price = Some (1299 / 100), b_genre = Some ''Classic'',
            b_author_id = Some 1, b_publisher_id = Some 1, b_rowid = 1\<rparr>"
    by (simp add: read_book_def sql_select_book_def seed_db_def b_id_def sqlite_int_def)
  have a: "fst (update_author 1 ?a ?db) =
             Inr \<lparr>a_name = ''J. Austen'', a_email = None, a_bio = None, a_rowid = 1,
                   a_date_registered = Some (Date 2024 1 1)\<rparr> \<and>
           fst (read_author 1 (fst (snd (update_author 1 ?a ?db)))) =
             Inr \<lparr>a_name = ''J. Austen'', a_email = None, a_bio = None, a_rowid = 1,
                   a_date_registered = Some (Date 2024 1 1)\<rparr>"
    using inst pre_a old_a by auto
  have p: "fst (read_publisher 2 (fst (snd (update_publisher 2 ?p ?db)))) =
             Inr \<lparr>p_name = ''Harper'', p_address = None, p_phone = Some ''555-0000'',
                   p_email = Some ''info@harpercollins.com'', p_rowid = 2\<rparr>"
    using inst pre_p old_p by auto
  have b: "fst (read_book 1 (fst (snd (update_book 1 ?b ?db)))) =
             Inr \<lparr>b_title = ''Emma'', b_description = None,
                   b_isbn = Some ''9780141439518'', b_publication_date = None,
                   b_price = Some 5, b_genre = None, b_author_id = Some 1,
                   b_publisher_id = None, b_rowid = 1\<rparr>"
    using inst pre_b old_b by auto
  from a p b show ?thesis by simp
qed

subsection \<open>Null references\<close>

text \<open>C5: a book create or update request with a null author_id that the other
  checks let through (the publisher_id is null or matches a row, no other row holds the
  isbn, for a create the books table has a rowid left, for an update the book id exists)
  succeeds whatever the authors table holds, the empty table included. The authors
  table is not looked at: no statement on it is executed. A create appends the input
  as a new row with a fresh id and returns it; an update writes the input over the row
  with that id and returns it, and a get of the id finds it. Nothing else in the store
  changes. Likewise with a null publisher_id and any publishers table.\<close>

theorem null_reference_passes:
  "(b_author_id book = None \<and>
    (case b_publisher_id book of None \<Rightarrow> True
     | Some p \<Rightarrow> p \<in> p_id ` set (publishers db)) \<and>
    (b_isbn book = None \<or> b_isbn book \<notin> b_isbn ` set (books db)) \<and>
    sqlite_int (next_rowid (sint (books_seq db)) (map b_id (books db))) \<longrightarrow>
      (\<forall>as. \<exists>r.
         create_book book (db\<lparr>authors := as\<rparr>) =
           (Inr r,
            db\<lparr>authors := as, books := books db @ [r], books_seq := b_rowid r\<rparr>,
            (case b_publisher_id book of None \<Rightarrow> [] | Some p \<Rightarrow> [Select Publishers]) @
            [Insert Books, Commit, Select Books]) \<and>
         BookBase.truncate r = book \<and> b_id r \<notin> b_id ` set (books db))) \<and>
   (b_author_id book = None \<and> book_id \<in> b_id ` set (books db) \<and>
    (case b_publisher_id book of None \<Rightarrow> True
     | Some p \<Rightarrow> p \<in> p_id ` set (publishers db)) \<and>
    (b_isbn book = None \<or>
     b_isbn book \<notin> b_isbn ` {r \<in> set (books db). b_id r \<noteq> book_id}) \<longrightarrow>
      (\<forall>as. \<exists>r.
         update_book book_id book (db\<lparr>authors := as\<rparr>) =
           (Inr r,
            db\<lparr>authors := as,
               books :=
                 map (\<lambda>x. if b_id x = book_id
                          then x\<lparr>b_title := b_title book,
                                 b_description := b_description book,
                                 b_isbn := b_isbn book,
                                 b_publication_date := b_publication_date book,
                                 b_price := b_price book, b_genre := b_genre book,
                                 b_author_id := b_author_id book,
                                 b_publisher_id := b_publisher_id book\<rparr>
                          else x) (books db)\<rparr>,
            Select Books #
            (case b_publisher_id book of None \<Rightarrow> [] | Some p \<Rightarrow> [Select Publishers]) @
            [Update Books, Commit, Select Books]) \<and>
         BookBase.truncate r = book \<and> b_id r = book_id \<and>
         fst (read_book book_id
                (fst (snd (update_book book_id book (db\<lparr>authors := as\<rparr>))))) = Inr r)) \<and>
   (b_publisher_id book = None \<and>
    (case b_author_id book of None \<Rightarrow> True | Some a \<Rightarrow> a \<in> a_id ` set (authors db)) \<and>
    (b_isbn book = None \<or> b_isbn book \<notin> b_isbn ` set (books db)) \<and>
    sqlite_int (next_rowid (sint (books_seq db)) (map b_id (books db))) \<longrightarrow>
      (\<forall>ps. \<exists>r.
         create_book book (db\<lparr>publishers := ps\<rparr>) =
           (Inr r,
            db\<lparr>publishers := ps, books := books db @ [r], books_seq := b_rowid r\<rparr>,
            (case b_author_id book of None \<Rightarrow> [] | Some a \<Rightarrow> [Select Authors]) @
            [Insert Books, Commit, Select Books]) \<and>
         BookBase.truncate r = book \<and> b_id r \<notin> b_id ` set (books db))) \<and>
   (b_publisher_id book = None \<and> book_id \<in> b_id ` set (books db) \<and>
    (case b_author_id book of None \<Rightarrow> True | Some a \<Rightarrow> a \<in> a_id ` set (authors db)) \<and>
    (b_isbn book = None \<or>
     b_isbn book \<notin> b_isbn ` {r \<in> set (books db). b_id r \<noteq> book_id}) \<longrightarrow>
      (\<forall>ps. \<exists>r.
         update_book book_id book (db\<lparr>publishers := ps\<rparr>) =
           (Inr r,
            db\<lparr>publishers := ps,
               books :=
                 map (\<lambda>x. if b_id x = book_id
                          then x\<lparr>b_title := b_title book,
                                 b_description := b_description book,
                                 b_isbn := b_isbn book,
                                 b_publication_date := b_publication_date book,
                                 b_price := b_price book, b_genre := b_genre book,
                                 b_author_id := b_author_id book,
                                 b_publisher_id := b_publisher_id book\<rparr>
                          else x) (books db)\<rparr>,
            Select Books #
            (case b_author_id book of None \<Rightarrow> [] | Some a \<Rightarrow> [Select Authors]) @
            [Update Books, Commit, Select Books]) \<and>
         BookBase.truncate r = book \<and> b_id r = book_id \<and>
         fst (read_book book_id
                (fst (snd (update_book book_id book (db\<lparr>publishers := ps\<rparr>))))) = Inr r))"
proof -
  have create: "\<exists>r. create_book book d =
           (Inr r, d\<lparr>books := books d @ [r], books_seq := b_rowid r\<rparr>,
            (case b_author_id book of None \<Rightarrow> [] | Some a \<Rightarrow> [Select Authors]) @
            (case b_publisher_id book of None \<Rightarrow> [] | Some p \<Rightarrow> [Select Publishers]) @
            [Insert Books, Commit, Select Books]) \<and>
         BookBase.truncate r = book \<and> b_id r \<notin> b_id ` set (books d)"
    if "case b_author_id book of None \<Rightarrow> True | Some a \<Rightarrow> a \<in> a_id ` set (authors d)"
      and "case b_publisher_id book of None \<Rightarrow> True
           | Some p \<Rightarrow> p \<in> p_id ` set (publishers d)"
      and "b_isbn book = None \<or> b_isbn book \<notin> b_isbn ` set (books d)"
      and "sqlite_int (next_rowid (sint (books_seq d)) (map b_id (books d)))"
    for d
    using create_book_success [OF that] by blast
  have update: "\<exists>r. update_book book_id book d =
           (Inr r,
            d\<lparr>books :=
                 map (\<lambda>x. if b_id x = book_id
                          then x\<lparr>b_title := b_title book,
                                 b_description := b_description book,
                                 b_isbn := b_isbn book,
                                 b_publication_date := b_publication_date book,
                                 b_price := b_price book, b_genre := b_genre book,
                                 b_author_id := b_author_id book,
                                 b_publisher_id := b_publisher_id book\<rparr>
                          else x) (books d)\<rparr>,
            Select Books #
            (case b_author_id book of None \<Rightarrow> [] | Some a \<Rightarrow> [Select Authors]) @
            (case b_publisher_id book of None \<Rightarrow> [] | Some p \<Rightarrow> [Select Publishers]) @
            [Update Books, Commit, Select Books]) \<and>
         BookBase.truncate r = book \<and> b_id r = book_id \<and>
         fst (read_book book_id (fst (snd (update_book book_id book d)))) = Inr r"
    if e: "book_id \<in> b_id ` set (books d)"
      and a: "case b_author_id book of None \<Rightarrow> True | Some a \<Rightarrow> a \<in> a_id ` set (authors d)"
      and p: "case b_publisher_id book of None \<Rightarrow> True
           | Some p \<Rightarrow> p \<in> p_id ` set (publishers d)"
      and i: "b_isbn book = None \<or>
           b_isbn book \<notin> b_isbn ` {r \<in> set (books d). b_id r \<noteq> book_id}"
    for d
  proof -
    let ?g = "\<lambda>x::Book. x\<lparr>b_title := b_title book, b_description := b_description book,
                b_isbn := b_isbn book, b_publication_date := b_publication_date book,
                b_price := b_price book, b_genre := b_genre book,
                b_author_id := b_author_id book,
                b_publisher_id := b_publisher_id book\<rparr>"
    from update_book_success [OF e a p i]
    obtain old db' where u:
      "sql_select_book book_id d = Inr (Some old)"
      "update_book book_id book d =
         (Inr (?g old), db',
          Select Books #
          (case b_author_id book of None \<Rightarrow> [] | Some a \<Rightarrow> [Select Authors]) @
          (case b_publisher_id book of None \<Rightarrow> [] | Some p \<Rightarrow> [Select Publishers]) @
          [Update Books, Commit, Select Books])"
      "sql_select_book book_id db' = Inr (Some (?g old))"
      "db' = d\<lparr>books := map (\<lambda>r. if b_id r = book_id then ?g r else r) (books d)\<rparr>"
      by blast
    have "find (\<lambda>r. b_id r = book_id) (books d) = Some old"
      using u(1) by (simp add: sql_select_book_def split: if_splits)
    then have "b_id old = book_id"
      using find_SomeD [of b_id book_id "books d" old] by simp
    then have "BookBase.truncate (?g old) = book \<and> b_id (?g old) = book_id"
      by (simp add: BookBase.truncate_def b_id_def)
    moreover have "fst (read_book book_id (fst (snd (update_book book_id book d)))) =
                     Inr (?g old)"
      using u(2,3) by (simp add: read_book_def)
    ultimately show ?thesis
      using u(2,4) by auto
  qed
  show ?thesis
  proof (intro conjI impI allI)
    fix as
    assume h: "b_author_id book = None \<and>
      (case b_publisher_id book of None \<Rightarrow> True
       | Some p \<Rightarrow> p \<in> p_id ` set (publishers db)) \<and>
      (b_isbn book = None \<or> b_isbn book \<notin> b_isbn ` set (books db)) \<and>
      sqlite_int (next_rowid (sint (books_seq db)) (map b_id (books db)))"
    let ?d = "db\<lparr>authors := as\<rparr>"
    have "case b_author_id book of None \<Rightarrow> True | Some a \<Rightarrow> a \<in> a_id ` set (authors ?d)"
      using h by simp
    moreover have "case b_publisher_id book of None \<Rightarrow> True
                   | Some p \<Rightarrow> p \<in> p_id ` set (publishers ?d)"
      using h by (cases "b_publisher_id book") simp_all
    moreover have "b_isbn book = None \<or> b_isbn book \<notin> b_isbn ` set (books ?d)"
      using h by simp
    moreover have "sqlite_int (next_rowid (sint (books_seq ?d)) (map b_id (books ?d)))"
      using h by simp
    ultimately show "\<exists>r.
         create_book book (db\<lparr>authors := as\<rparr>) =
           (Inr r,
            db\<lparr>authors := as, books := books db @ [r], books_seq := b_rowid r\<rparr>,
            (case b_publisher_id book of None \<Rightarrow> [] | Some p \<Rightarrow> [Select Publishers]) @
            [Insert Books, Commit, Select Books]) \<and>
         BookBase.truncate r = book \<and> b_id r \<notin> b_id ` set (books db)"
      using create [of ?d] h by simp
  next
    fix as
    assume h: "b_author_id book = None \<and> book_id \<in> b_id ` set (books db) \<and>
      (case b_publisher_id book of None \<Rightarrow> True
       | Some p \<Rightarrow> p \<in> p_id ` set (publishers db)) \<and>
      (b_isbn book = None \<or>
       b_isbn book \<notin> b_isbn ` {r \<in> set (books db). b_id r \<noteq> book_id})"
    let ?d = "db\<lparr>authors := as\<rparr>"
    have "book_id \<in> b_id ` set (books ?d)"
      using h by simp
    moreover have "case b_author_id book of None \<Rightarrow> True
                   | Some a \<Rightarrow> a \<in> a_id ` set (authors ?d)"
      using h by simp
    moreover have "case b_publisher_id book of None \<Rightarrow> True
                   | Some p \<Rightarrow> p \<in> p_id ` set (publishers ?d)"
      using h by (cases "b_publisher_id book") simp_all
    moreover have "b_isbn book = None \<or>
                   b_isbn book \<notin> b_isbn ` {r \<in> set (books ?d). b_id r \<noteq> book_id}"
      using h by simp
    ultimately show "\<exists>r.
         update_book book_id book (db\<lparr>authors := as\<rparr>) =
           (Inr r,
            db\<lparr>authors := as,
               books :=
                 map (\<lambda>x. if b_id x = book_id
                          then x\<lparr>b_title := b_title book,
                                 b_description := b_description book,
                                 b_isbn := b_isbn book,
                                 b_publication_date := b_publication_date book,
                                 b_price := b_price book, b_genre := b_genre book,
                                 b_author_id := b_author_id book,
                                 b_publisher_id := b_publisher_id book\<rparr>
                          else x) (books db)\<rparr>,
            Select Books #
            (case b_publisher_id book of None \<Rightarrow> [] | Some p \<Rightarrow> [Select Publishers]) @
            [Update Books, Commit, Select Books]) \<and>
         BookBase.truncate r = book \<and> b_id r = book_id \<and>
         fst (read_book book_id
                (fst (snd (update_book book_id book (db\<lparr>authors := as\<rparr>))))) = Inr r"
      using update [of ?d] h by simp
  next
    fix ps
    assume h: "b_publisher_id book = None \<and>
      (case b_author_id book of None \<Rightarrow> True | Some a \<Rightarrow> a \<in> a_id ` set (authors db)) \<and>
      (b_isbn book = None \<or> b_isbn book \<notin> b_isbn ` set (books db)) \<and>
      sqlite_int (next_rowid (sint (books_seq db)) (map b_id (books db)))"
    let ?d = "db\<lparr>publishers := ps\<rparr>"
    have "case b_author_id book of None \<Rightarrow> True | Some a \<Rightarrow> a \<in> a_id ` set (authors ?d)"
      using h by (cases "b_author_id book") simp_all
    moreover have "case b_publisher_id book of None \<Rightarrow> True
                   | Some p \<Rightarrow> p \<in> p_id ` set (publishers ?d)"
      using h by simp
    moreover have "b_isbn book = None \<or> b_isbn book \<notin> b_isbn ` set (books ?d)"
      using h by simp
    moreover have "sqlite_int (next_rowid (sint (books_seq ?d)) (map b_id (books ?d)))"
      using h by simp
    ultimately show "\<exists>r.
         create_book book (db\<lparr>publishers := ps\<rparr>) =
           (Inr r,
            db\<lparr>publishers := ps, books := books db @ [r], books_seq := b_rowid r\<rparr>,
            (case b_author_id book of None \<Rightarrow> [] | Some a \<Rightarrow> [Select Authors]) @
            [Insert Books, Commit, Select Books]) \<and>
         BookBase.truncate r = book \<and> b_id r \<notin> b_id ` set (books db)"
      using create [of ?d] h by simp
  next
    fix ps
    assume h: "b_publisher_id book = None \<and> book_id \<in> b_id ` set (books db) \<and>
      (case b_author_id book of None \<Rightarrow> True | Some a \<Rightarrow> a \<in> a_id ` set (authors db)) \<and>
      (b_isbn book = None \<or>
       b_isbn book \<notin> b_isbn ` {r \<in> set (books db). b_id r \<noteq> book_id})"
    let ?d = "db\<lparr>publishers := ps\<rparr>"
    have "book_id \<in> b_id ` set (books ?d)"
      using h by simp
    moreover have "case b_author_id book of None \<Rightarrow> True
                   | Some a \<Rightarrow> a \<in> a_id ` set (authors ?d)"
      using h by (cases "b_author_id book") simp_all
    moreover have "case b_publisher_id book of None \<Rightarrow> True
                   | Some p \<Rightarrow> p \<in> p_id ` set (publishers ?d)"
      using h by simp
    moreover have "b_isbn book = None \<or>
                   b_isbn book \<notin> b_isbn ` {r \<in> set (books ?d). b_id r \<noteq> book_id}"
      using h by simp
    ultimately show "\<exists>r.
         update_book book_id book (db\<lparr>publishers := ps\<rparr>) =
           (Inr r,
            db\<lparr>publishers := ps,
               books :=
                 map (\<lambda>x. if b_id x = book_id
                          then x\<lparr>b_title := b_title book,
                                 b_description := b_description book,
                                 b_isbn := b_isbn book,
                                 b_publication_date := b_publication_date book,
                                 b_price := b_price book, b_genre := b_genre book,
                                 b_author_id := b_author_id book,
                                 b_publisher_id := b_publisher_id book\<rparr>
                          else x) (books db)\<rparr>,
            Select Books #
            (case b_author_id book of None \<Rightarrow> [] | Some a \<Rightarrow> [Select Authors]) @
            [Update Books, Commit, Select Books]) \<and>
         BookBase.truncate r = book \<and> b_id r = book_id \<and>
         fst (read_book book_id
                (fst (snd (update_book book_id book (db\<lparr>publishers := ps\<rparr>))))) = Inr r"
      using update [of ?d] h by simp
  qed
qed

text \<open>A book with both references null is created in a store with no author: it is
  appended to the books table and nothing else is written. It replaces book 2 in a
  store with no publisher, and book 2 is then fetched with the new values.\<close>

theorem null_reference_passes_witness:
  "(\<exists>r.
      create_book
        \<lparr>b_title = ''Emma'', b_description = None, b_isbn = None,
          b_publication_date = None, b_price = None, b_genre = None,
          b_author_id = None, b_publisher_id = None\<rparr>
        (seed_db (Date 2024 1 1)\<lparr>authors := []\<rparr>) =
        (Inr r,
         seed_db (Date 2024 1 1)
           \<lparr>authors := [], books := books (seed_db (Date 2024 1 1)) @ [r],
            books_seq := b_rowid r\<rparr>,
         [Insert Books, Commit, Select Books]) \<and>
      BookBase.truncate r =
        \<lparr>b_title = ''Emma'', b_description = None, b_isbn = None,
          b_publication_date = None, b_price = None, b_genre = None,
          b_author_id = None, b_publisher_id = None\<rparr> \<and>
      b_id r \<notin> b_id ` set (books (seed_db (Date 2024 1 1)))) \<and>
   (\<exists>r.
      fst (update_book 2
        \<lparr>b_title = ''Emma'', b_description = None, b_isbn = None,
          b_publication_date = None, b_price = None, b_genre = None,
          b_author_id = None, b_publisher_id = None\<rparr>
        (seed_db (Date 2024 1 1)\<lparr>publishers := []\<rparr>)) = Inr r \<and>
      BookBase.truncate r =
        \<lparr>b_title = ''Emma'', b_description = None, b_isbn = None,
          b_publication_date = None, b_price = None, b_genre = None,
          b_author_id = None, b_publisher_id = None\<rparr> \<and>
      b_id r = 2 \<and>
      fst (read_book 2 (fst (snd (update_book 2
        \<lparr>b_title = ''Emma'', b_description = None, b_isbn = None,
          b_publication_date = None, b_price = None, b_genre = None,
          b_author_id = None, b_publisher_id = None\<rparr>
        (seed_db (Date 2024 1 1)\<lparr>publishers := []\<rparr>))))) = Inr r)"
proof -
  let ?db = "seed_db (Date 2024 1 1)"
  let ?b = "\<lparr>b_title = ''Emma'', b_description = None, b_isbn = None,
      b_publication_date = None, b_price = None, b_genre = None,
      b_author_id = None, b_publisher_id = None\<rparr>"
  note inst = null_reference_passes [of ?b ?db 2]
  have pre: "b_author_id ?b = None" "b_publisher_id ?b = None" "b_isbn ?b = None"
    "2 \<in> b_id ` set (books ?db)"
    by (simp_all add: seed_ids)
  have "next_rowid (sint (books_seq ?db)) (map b_id (books ?db)) = 3"
    by (simp add: seed_db_def next_rowid_def b_id_def)
  then have left: "sqlite_int (next_rowid (sint (books_seq ?db)) (map b_id (books ?db)))"
    by (simp add: sqlite_int_def)
  have h1: "b_author_id ?b = None \<and>
      (case b_publisher_id ?b of None \<Rightarrow> True
       | Some p \<Rightarrow> p \<in> p_id ` set (publishers ?db)) \<and>
      (b_isbn ?b = None \<or> b_isbn ?b \<notin> b_isbn ` set (books ?db)) \<and>
      sqlite_int (next_rowid (sint (books_seq ?db)) (map b_id (books ?db)))"
    using pre left by simp
  have h4: "b_publisher_id ?b = None \<and> 2 \<in> b_id ` set (books ?db) \<and>
      (case b_author_id ?b of None \<Rightarrow> True | Some a \<Rightarrow> a \<in> a_id ` set (authors ?db)) \<and>
      (b_isbn ?b = None \<or>
       b_isbn ?b \<notin> b_isbn ` {r \<in> set (books ?db). b_id r \<noteq> 2})"
    using pre by simp
  note c0 = inst [THEN conjunct1, THEN mp, OF h1, THEN spec, of "[]"]
  note u0 = inst [THEN conjunct2, THEN conjunct2, THEN conjunct2, THEN mp, OF h4,
      THEN spec, of "[]"]
  from c0 have c: "\<exists>r.
      create_book ?b (?db\<lparr>authors := []\<rparr>) =
        (Inr r, ?db\<lparr>authors := [], books := books ?db @ [r], books_seq := b_rowid r\<rparr>,
         [Insert Books, Commit, Select Books]) \<and>
      BookBase.truncate r = ?b \<and> b_id r \<notin> b_id ` set (books ?db)"
    by simp
  from u0 obtain r where
    "fst (update_book 2 ?b (?db\<lparr>publishers := []\<rparr>)) = Inr r"
    "BookBase.truncate r = ?b" "b_id r = 2"
    "fst (read_book 2 (fst (snd (update_book 2 ?b (?db\<lparr>publishers := []\<rparr>))))) = Inr r"
    by auto
  then have u: "\<exists>r.
      fst (update_book 2 ?b (?db\<lparr>publishers := []\<rparr>)) = Inr r \<and>
      BookBase.truncate r = ?b \<and> b_id r = 2 \<and>
      fst (read_book 2 (fst (snd (update_book 2 ?b (?db\<lparr>publishers := []\<rparr>))))) = Inr r"
    by blast
  from c u show ?thesis by (rule conjI)
qed

text \<open>The seeded tables have rowids left: the next one is 3.\<close>

lemma seed_next_rowid:
  "next_rowid (sint (authors_seq (seed_db today))) (map a_id (authors (seed_db today))) = 3"
  "next_rowid (sint (publishers_seq (seed_db today)))
     (map p_id (publishers (seed_db today))) = 3"
  "next_rowid (sint (books_seq (seed_db today))) (map b_id (books (seed_db today))) = 3"
  by (simp_all add: seed_db_def next_rowid_def a_id_def p_id_def b_id_def)

subsection \<open>Uniqueness conflicts\<close>

text \<open>C3 (as amended): a create or update request that passes the handler's own
  checks and gives an email (for a book: an isbn) that another row of the table already
  holds ends in the store's \<open>IntegrityError\<close>, raised by the INSERT or UPDATE statement.
  No handler catches it: it is not an \<open>HTTPException\<close> and not a client error, and the
  framework answers it with status 500. Nothing is committed, so the store is the one
  the request found. The one case in which the INSERT does not get as far as the
  \<^verbatim>\<open>UNIQUE\<close> check is a table with no rowid left: there it is refused with
  \<open>OperationalError\<close>, which is not caught either.\<close>

theorem unique_conflict_unhandled:
  "(a_email author \<noteq> None \<and> a_email author \<in> a_email ` set (authors db) \<longrightarrow>
      create_author today author db =
        (Inl (if sqlite_int (next_rowid (sint (authors_seq db)) (map a_id (authors db)))
              then IntegrityError ''UNIQUE constraint failed: authors.email''
              else OperationalError ''database or disk is full''), db,
         [Insert Authors])) \<and>
   (author_id \<in> a_id ` set (authors db) \<and> a_email author \<noteq> None \<and>
    a_email author \<in> a_email ` {r \<in> set (authors db). a_id r \<noteq> author_id} \<longrightarrow>
      update_author author_id author db =
        (Inl (IntegrityError ''UNIQUE constraint failed: authors.email''), db,
         [Select Authors, Update Authors])) \<and>
   (p_email publisher \<noteq> None \<and> p_email publisher \<in> p_email ` set (publishers db) \<longrightarrow>
      create_publisher publisher db =
        (Inl (if sqlite_int (next_rowid (sint (publishers_seq db)) (map p_id (publishers db)))
              then IntegrityError ''UNIQUE constraint failed: publishers.email''
              else OperationalError ''database or disk is full''), db,
         [Insert Publishers])) \<and>
   (publisher_id \<in> p_id ` set (publishers db) \<and> p_email publisher \<noteq> None \<and>
    p_email publisher \<in> p_email ` {r \<in> set (publishers db). p_id r \<noteq> publisher_id} \<longrightarrow>
      update_publisher publisher_id publisher db =
        (Inl (IntegrityError ''UNIQUE constraint failed: publishers.email''), db,
         [Select Publishers, Update Publishers])) \<and>
   (b_isbn book \<noteq> None \<and> b_isbn book \<in> b_isbn ` set (books db) \<and>
    (case b_author_id book of None \<Rightarrow> True | Some a \<Rightarrow> a \<in> a_id ` set (authors db)) \<and>
    (case b_publisher_id book of None \<Rightarrow> True
     | Some p \<Rightarrow> p \<in> p_id ` set (publishers db)) \<longrightarrow>
      create_book book db =
        (Inl (if sqlite_int (next_rowid (sint (books_seq db)) (map b_id (books db)))
              then IntegrityError ''UNIQUE constraint failed: books.isbn''
              else OperationalError ''database or disk is full''), db,
         (case b_author_id book of None \<Rightarrow> [] | Some a \<Rightarrow> [Select Authors]) @
         (case b_publisher_id book of None \<Rightarrow> [] | Some p \<Rightarrow> [Select Publishers]) @
         [Insert Books])) \<and>
   (book_id \<in> b_id ` set (books db) \<and> b_isbn book \<noteq> None \<and>
    b_isbn book \<in> b_isbn ` {r \<in> set (books db). b_id r \<noteq> book_id} \<and>
    (case b_author_id book of None \<Rightarrow> True | Some a \<Rightarrow> a \<in> a_id ` set (authors db)) \<and>
    (case b_publisher_id book of None \<Rightarrow> True
     | Some p \<Rightarrow> p \<in> p_id ` set (publishers db)) \<longrightarrow>
      update_book book_id book db =
        (Inl (IntegrityError ''UNIQUE constraint failed: books.isbn''), db,
         Select Books #
         (case b_author_id book of None \<Rightarrow> [] | Some a \<Rightarrow> [Select Authors]) @
         (case b_publisher_id book of None \<Rightarrow> [] | Some p \<Rightarrow> [Select Publishers]) @
         [Update Books])) \<and>
   \<not> is_client_error (IntegrityError msg) \<and> status_code (IntegrityError msg) = 500 \<and>
   \<not> is_client_error (OperationalError msg) \<and> status_code (OperationalError msg) = 500"
proof (intro conjI impI)
  assume h: "a_email author \<noteq> None \<and> a_email author \<in> a_email ` set (authors db)"
  then have "unique_conflict a_email (a_email author) (authors db)"
    by (simp add: unique_conflict_iff)
  then show "create_author today author db =
        (Inl (if sqlite_int (next_rowid (sint (authors_seq db)) (map a_id (authors db)))
              then IntegrityError ''UNIQUE constraint failed: authors.email''
              else OperationalError ''database or disk is full''), db,
         [Insert Authors])"
    by (simp add: create_author_def sql_insert_author_def Let_def)
next
  assume h: "author_id \<in> a_id ` set (authors db) \<and> a_email author \<noteq> None \<and>
    a_email author \<in> a_email ` {r \<in> set (authors db). a_id r \<noteq> author_id}"
  then obtain old where old: "sql_select_author author_id db = Inr (Some old)"
    using select_author_present by blast
  have "unique_conflict a_email (a_email author)
          (filter (\<lambda>r. a_id r \<noteq> author_id) (authors db))"
    using h by (simp add: unique_conflict_iff)
  then have "sql_update_author author_id author db =
               Inl (IntegrityError ''UNIQUE constraint failed: authors.email'')"
    using h by (simp add: sql_update_author_def list_ex_id_iff)
  then show "update_author author_id author db =
        (Inl (IntegrityError ''UNIQUE constraint failed: authors.email''), db,
         [Select Authors, Update Authors])"
    by (simp add: update_author_def old)
next
  assume h: "p_email publisher \<noteq> None \<and> p_email publisher \<in> p_email ` set (publishers db)"
  then have "unique_conflict p_email (p_email publisher) (publishers db)"
    by (simp add: unique_conflict_iff)
  then show "create_publisher publisher db =
        (Inl (if sqlite_int (next_rowid (sint (publishers_seq db)) (map p_id (publishers db)))
              then IntegrityError ''UNIQUE constraint failed: publishers.email''
              else OperationalError ''database or disk is full''), db,
         [Insert Publishers])"
    by (simp add: create_publisher_def sql_insert_publisher_def Let_def)
next
  assume h: "publisher_id \<in> p_id ` set (publishers db) \<and> p_email publisher \<noteq> None \<and>
    p_email publisher \<in> p_email ` {r \<in> set (publishers db). p_id r \<noteq> publisher_id}"
  then obtain old where old: "sql_select_publisher publisher_id db = Inr (Some old)"
    using select_publisher_present by blast
  have "unique_conflict p_email (p_email publisher)
          (filter (\<lambda>r. p_id r \<noteq> publisher_id) (publishers db))"
    using h by (simp add: unique_conflict_iff)
  then have "sql_update_publisher publisher_id publisher db =
               Inl (IntegrityError ''UNIQUE constraint failed: publishers.email'')"
    using h by (simp add: sql_update_publisher_def list_ex_id_iff)
  then show "update_publisher publisher_id publisher db =
        (Inl (IntegrityError ''UNIQUE constraint failed: publishers.email''), db,
         [Select Publishers, Update Publishers])"
    by (simp add: update_publisher_def old)
next
  assume h: "b_isbn book \<noteq> None \<and> b_isbn book \<in> b_isbn ` set (books db) \<and>
    (case b_author_id book of None \<Rightarrow> True | Some a \<Rightarrow> a \<in> a_id ` set (authors db)) \<and>
    (case b_publisher_id book of None \<Rightarrow> True
     | Some p \<Rightarrow> p \<in> p_id ` set (publishers db))"
  then have a: "case b_author_id book of None \<Rightarrow> True
                | Some a \<Rightarrow> a \<in> a_id ` set (authors db)"
    and p: "case b_publisher_id book of None \<Rightarrow> True
            | Some p \<Rightarrow> p \<in> p_id ` set (publishers db)"
    by blast+
  have "unique_conflict b_isbn (b_isbn book) (books db)"
    using h by (simp add: unique_conflict_iff)
  then have "sql_insert_book book db =
               Inl (if sqlite_int (next_rowid (sint (books_seq db)) (map b_id (books db)))
                    then IntegrityError ''UNIQUE constraint failed: books.isbn''
                    else OperationalError ''database or disk is full'')"
    by (simp add: sql_insert_book_def Let_def)
  then show "create_book book db =
        (Inl (if sqlite_int (next_rowid (sint (books_seq db)) (map b_id (books db)))
              then IntegrityError ''UNIQUE constraint failed: books.isbn''
              else OperationalError ''database or disk is full''), db,
         (case b_author_id book of None \<Rightarrow> [] | Some a \<Rightarrow> [Select Authors]) @
         (case b_publisher_id book of None \<Rightarrow> [] | Some p \<Rightarrow> [Select Publishers]) @
         [Insert Books])"
    by (simp add: create_book_def validate_author_id_pass [OF a]
        validate_publisher_id_pass [OF p])
next
  assume h: "book_id \<in> b_id ` set (books db) \<and> b_isbn book \<noteq> None \<and>
    b_isbn book \<in> b_isbn ` {r \<in> set (books db). b_id r \<noteq> book_id} \<and>
    (case b_author_id book of None \<Rightarrow> True | Some a \<Rightarrow> a \<in> a_id ` set (authors db)) \<and>
    (case b_publisher_id book of None \<Rightarrow> True
     | Some p \<Rightarrow> p \<in> p_id ` set (publishers db))"
  then have a: "case b_author_id book of None \<Rightarrow> True
                | Some a \<Rightarrow> a \<in> a_id ` set (authors db)"
    and p: "case b_publisher_id book of None \<Rightarrow> True
            | Some p \<Rightarrow> p \<in> p_id ` set (publishers db)"
    by blast+
  from h obtain old where old: "sql_select_book book_id db = Inr (Some old)"
    using select_book_present by blast
  have "unique_conflict b_isbn (b_isbn book)
          (filter (\<lambda>r. b_id r \<noteq> book_id) (books db))"
    using h by (simp add: unique_conflict_iff)
  then have "sql_update_book book_id book db =
               Inl (IntegrityError ''UNIQUE constraint failed: books.isbn'')"
    using h by (simp add: sql_update_book_def list_ex_id_iff)
  then show "update_book book_id book db =
        (Inl (IntegrityError ''UNIQUE constraint failed: books.isbn''), db,
         Select Books #
         (case b_author_id book of None \<Rightarrow> [] | Some a \<Rightarrow> [Select Authors]) @
         (case b_publisher_id book of None \<Rightarrow> [] | Some p \<Rightarrow> [Select Publishers]) @
         [Update Books])"
    by (simp add: update_book_def old validate_author_id_pass [OF a]
        validate_publisher_id_pass [OF p])
next
  show "\<not> is_client_error (IntegrityError msg)"
    by (simp add: is_client_error_def)
  show "status_code (IntegrityError msg) = 500"
    by simp
  show "\<not> is_client_error (OperationalError msg)"
    by (simp add: is_client_error_def)
  show "status_code (OperationalError msg) = 500"
    by simp
qed

text \<open>On the seeded store: a second author with Jane Austen's email, George Orwell
  taking that email, a second book with the isbn of "1984", and book 1 taking it.\<close>

theorem unique_conflict_unhandled_witness:
  "create_author (Date 2024 6 1)
     \<lparr>a_name = ''J. Austen'', a_email = Some ''jane@example.com'', a_bio = None\<rparr>
     (seed_db (Date 2024 1 1)) =
     (Inl (IntegrityError ''UNIQUE constraint failed: authors.email''),
      seed_db (Date 2024 1 1), [Insert Authors]) \<and>
   update_author 2
     \<lparr>a_name = ''J. Austen'', a_email = Some ''jane@example.com'', a_bio = None\<rparr>
     (seed_db (Date 2024 1 1)) =
     (Inl (IntegrityError ''UNIQUE constraint failed: authors.email''),
      seed_db (Date 2024 1 1), [Select Authors, Update Authors]) \<and>
   create_book
     \<lparr>b_title = ''Nineteen Eighty-Four'', b_description = None,
       b_isbn = Some ''9780451524935'', b_publication_date = None, b_price = None,
       b_genre = None, b_author_id = Some 2, b_publisher_id = None\<rparr>
     (seed_db (Date 2024 1 1)) =
     (Inl (IntegrityError ''UNIQUE constraint failed: books.isbn''),
      seed_db (Date 2024 1 1), [Select Authors, Insert Books]) \<and>
   update_book 1
     \<lparr>b_title = ''Nineteen Eighty-Four'', b_description = None,
       b_isbn = Some ''9780451524935'', b_publication_date = None, b_price = None,
       b_genre = None, b_author_id = Some 2, b_publisher_id = None\<rparr>
     (seed_db (Date 2024 1 1)) =
     (Inl (IntegrityError ''UNIQUE constraint failed: books.isbn''),
      seed_db (Date 2024 1 1), [Select Books, Select Authors, Update Books]) \<and>
   \<not> is_client_error (IntegrityError ''UNIQUE constraint failed: books.isbn'')"
proof -
  let ?db = "seed_db (Date 2024 1 1)"
  let ?a = "\<lparr>a_name = ''J. Austen'', a_email = Some ''jane@example.com'', a_bio = None\<rparr>"
  let ?b = "\<lparr>b_title = ''Nineteen Eighty-Four'', b_description = None,
       b_isbn = Some ''9780451524935'', b_publication_date = None, b_price = None,
       b_genre = None, b_author_id = Some 2, b_publisher_id = None\<rparr>"
  note inst = unique_conflict_unhandled
    [of ?a ?db "Date 2024 6 1" 2 _ _ ?b 1 "''UNIQUE constraint failed: books.isbn''"]
  have jane: "\<lparr>a_name = ''Jane Austen'', a_email = Some ''jane@example.com'',
        a_bio = Some ''Famous English novelist known for her six major novels'',
        a_rowid = 1, a_date_registered = Some (Date 2024 1 1)\<rparr>
      \<in> {r \<in> set (authors ?db). a_id r \<noteq> 2}"
    by (simp add: seed_db_def a_id_def)
  have "a_email ?a \<in> a_email ` {r \<in> set (authors ?db). a_id r \<noteq> 2}"
    using imageI [OF jane, of a_email] by simp
  then have pre_a: "a_email ?a \<noteq> None \<and> a_email ?a \<in> a_email ` set (authors ?db)"
    "2 \<in> a_id ` set (authors ?db) \<and> a_email ?a \<noteq> None \<and>
     a_email ?a \<in> a_email ` {r \<in> set (authors ?db). a_id r \<noteq> 2}"
    by (auto simp: seed_db_def a_id_def)
  have orwell: "\<lparr>b_title = ''1984'',
        b_description = Some ''A dystopian social science fiction novel'',
        b_isbn = Some ''9780451524935'', b_publication_date = Some (Date 1949 6 8),
        b_price = Some (1499 / 100), b_genre = Some ''Dystopian'',
        b_author_id = Some 2, b_publisher_id = Some 2, b_rowid = 2\<rparr>
      \<in> {r \<in> set (books ?db). b_id r \<noteq> 1}"
    by (simp add: seed_db_def b_id_def)
  have "b_isbn ?b \<in> b_isbn ` {r \<in> set (books ?db). b_id r \<noteq> 1}"
    using imageI [OF orwell, of b_isbn] by simp
  then have pre_b: "b_isbn ?b \<noteq> None \<and> b_isbn ?b \<in> b_isbn ` set (books ?db) \<and>
     (case b_author_id ?b of None \<Rightarrow> True | Some a \<Rightarrow> a \<in> a_id ` set (authors ?db)) \<and>
     (case b_publisher_id ?b of None \<Rightarrow> True
      | Some p \<Rightarrow> p \<in> p_id ` set (publishers ?db))"
    "1 \<in> b_id ` set (books ?db) \<and> b_isbn ?b \<noteq> None \<and>
     b_isbn ?b \<in> b_isbn ` {r \<in> set (books ?db). b_id r \<noteq> 1} \<and>
     (case b_author_id ?b of None \<Rightarrow> True | Some a \<Rightarrow> a \<in> a_id ` set (authors ?db)) \<and>
     (case b_publisher_id ?b of None \<Rightarrow> True
      | Some p \<Rightarrow> p \<in> p_id ` set (publishers ?db))"
    by (auto simp: seed_db_def a_id_def b_id_def)
  have left: "sqlite_int 3"
    by (simp add: sqlite_int_def)
  have 1: "create_author (Date 2024 6 1) ?a ?db =
     (Inl (IntegrityError ''UNIQUE constraint failed: authors.email''), ?db, [Insert Authors])"
    using inst pre_a(1) left by (simp add: seed_next_rowid)
  have 2: "update_author 2 ?a ?db =
     (Inl (IntegrityError ''UNIQUE constraint failed: authors.email''), ?db,
      [Select Authors, Update Authors])"
    using inst pre_a(2) by simp
  have 3: "create_book ?b ?db =
     (Inl (IntegrityError ''UNIQUE constraint failed: books.isbn''), ?db,
      (case b_author_id ?b of None \<Rightarrow> [] | Some a \<Rightarrow> [Select Authors]) @
      (case b_publisher_id ?b of None \<Rightarrow> [] | Some p \<Rightarrow> [Select Publishers]) @
      [Insert Books])"
    using inst pre_b(1) left by (simp add: seed_next_rowid)
  have 4: "update_book 1 ?b ?db =
     (Inl (IntegrityError ''UNIQUE constraint failed: books.isbn''), ?db,
      Select Books #
      (case b_author_id ?b of None \<Rightarrow> [] | Some a \<Rightarrow> [Select Authors]) @
      (case b_publisher_id ?b of None \<Rightarrow> [] | Some p \<Rightarrow> [Select Publishers]) @
      [Update Books])"
    using inst pre_b(2) by simp
  have 5: "\<not> is_client_error (IntegrityError ''UNIQUE constraint failed: books.isbn'')"
    using inst by simp
  from 1 2 3 4 5 show ?thesis by simp
qed

text \<open>C3 as stated fails: creating a publisher with the email of Penguin Random House
  raises \<open>IntegrityError\<close>, which is answered with status 500, not with a client error.\<close>

theorem unique_conflict_counterexample:
  "fst (create_publisher
     \<lparr>p_name = ''Penguin Books'', p_address = None, p_phone = None,
       p_email = Some ''info@prh.com''\<rparr>
     (seed_db (Date 2024 1 1))) =
     Inl (IntegrityError ''UNIQUE constraint failed: publishers.email'') \<and>
   \<not> is_client_error (IntegrityError ''UNIQUE constraint failed: publishers.email'') \<and>
   status_code (IntegrityError ''UNIQUE constraint failed: publishers.email'') = 500"
proof -
  have "sqlite_int 3"
    by (simp add: sqlite_int_def)
  moreover have "unique_conflict p_email (Some ''info@prh.com'')
      (publishers (seed_db (Date 2024 1 1)))"
    by (simp add: unique_conflict_def seed_db_def)
  ultimately show ?thesis
    by (simp add: create_publisher_def sql_insert_publisher_def seed_next_rowid
        is_client_error_def)
qed

subsection \<open>Deleting an author\<close>

text \<open>C9: deleting an author that exists succeeds, also when books reference it. The
  authors table loses the rows with that id and nothing else changes: the publishers
  and the books tables are the same, so every book keeps its author_id, which now
  matches no author row, and every get of a book answers as it did before.\<close>

theorem delete_author_keeps_books:
  assumes "author_id \<in> a_id ` set (authors db)"
  shows "\<exists>db'. delete_author author_id db =
                 (Inr (''Author '' @ str_int author_id @ '' deleted successfully''), db',
                  [Select Authors, Delete Authors, Commit]) \<and>
               authors db' = filter (\<lambda>r. a_id r \<noteq> author_id) (authors db) \<and>
               author_id \<notin> a_id ` set (authors db') \<and>
               publishers db' = publishers db \<and>
               books db' = books db \<and>
               (\<forall>book_id. fst (read_book book_id db') = fst (read_book book_id db))"
proof -
  obtain old where old: "sql_select_author author_id db = Inr (Some old)"
    using select_author_present [OF assms] by blast
  let ?db' = "sql_delete_author author_id db"
  have "delete_author author_id db =
          (Inr (''Author '' @ str_int author_id @ '' deleted successfully''), ?db',
           [Select Authors, Delete Authors, Commit])"
    by (simp add: delete_author_def old)
  moreover have "authors ?db' = filter (\<lambda>r. a_id r \<noteq> author_id) (authors db)"
    and "publishers ?db' = publishers db" and "books ?db' = books db"
    by (simp_all add: sql_delete_author_def)
  moreover have "author_id \<notin> a_id ` set (authors ?db')"
    by (auto simp: sql_delete_author_def)
  moreover have "\<forall>book_id. fst (read_book book_id ?db') = fst (read_book book_id db)"
    by (simp add: read_book_def sql_select_book_def sql_delete_author_def
        split: option.splits)
  ultimately show ?thesis by blast
qed

text \<open>Author 1 of the seeded store is referenced by book 1. After the delete, book 1
  is fetched unchanged, with its author_id 1.\<close>

theorem delete_author_keeps_books_witness:
  "1 \<in> a_id ` set (authors (seed_db (Date 2024 1 1))) \<and>
   fst (delete_author 1 (seed_db (Date 2024 1 1))) = Inr ''Author 1 deleted successfully'' \<and>
   1 \<notin> a_id ` set (authors (fst (snd (delete_author 1 (seed_db (Date 2024 1 1)))))) \<and>
   books (fst (snd (delete_author 1 (seed_db (Date 2024 1 1))))) =
     books (seed_db (Date 2024 1 1)) \<and>
   fst (read_book 1 (fst (snd (delete_author 1 (seed_db (Date 2024 1 1)))))) =
     Inr \<lparr>b_title = ''Pride and Prejudice'',
           b_description = Some ''A romantic novel of manners'',
           b_isbn = Some ''9780141439518'', b_publication_date = Some (Date 1813 1 28),
           b_price = Some (1299 / 100), b_genre = Some ''Classic'',
           b_author_id = Some 1, b_publisher_id = Some 1, b_rowid = 1\<rparr>"
proof -
  let ?db = "seed_db (Date 2024 1 1)"
  have pre: "1 \<in> a_id ` set (authors ?db)"
    by (simp add: seed_ids)
  have msg: "str_int 1 = ''1''"
    by (simp add: str_int_def str_nat.simps)
  have book: "fst (read_book 1 ?db) =
     Inr \<lparr>b_title = ''Pride and Prejudice'',
           b_description = Some ''A romantic novel of manners'',
           b_isbn = Some ''9780141439518'', b_publication_date = Some (Date 1813 1 28),
           b_price = Some (1299 / 100), b_genre = Some ''Classic'',
           b_author_id = Some 1, b_publisher_id = Some 1, b_rowid = 1\<rparr>"
    by (simp add: read_book_def sql_select_book_def seed_db_def b_id_def sqlite_int_def)
  from delete_author_keeps_books [OF pre] obtain db' where d:
    "delete_author 1 ?db =
       (Inr (''Author '' @ str_int 1 @ '' deleted successfully''), db',
        [Select Authors, Delete Authors, Commit])"
    "1 \<notin> a_id ` set (authors db')" "books db' = books ?db"
    "\<forall>book_id. fst (read_book book_id db') = fst (read_book book_id ?db)"
    by blast
  show ?thesis
    using pre d book by (simp add: msg)
qed

subsection \<open>Listing books\<close>

text \<open>C1: what \<open>read_books\<close> does with a filter value that Python counts as false.
  The empty genre and the ids 0 are dropped from the WHERE clause: the request is
  answered as if the parameter had been left out. On the seeded store a request for
  the books of author 0 returns both books, neither of which has author_id 0.\<close>

theorem falsy_filter_dropped:
  "read_books skip limit (Some '''') author_id publisher_id db =
     read_books skip limit None author_id publisher_id db \<and>
   read_books skip limit genre (Some 0) publisher_id db =
     read_books skip limit genre None publisher_id db \<and>
   read_books skip limit genre author_id (Some 0) db =
     read_books skip limit genre author_id None db \<and>
   fst (read_books 0 100 None (Some 0) None (seed_db today)) = Inr (books (seed_db today)) \<and>
   map b_author_id (books (seed_db today)) = [Some 1, Some 2]"
  by (simp add: read_books_def build_conditions_def truthy_str_def truthy_int_def
      sql_limit_offset_def sqlite_int_def seed_db_def)

text \<open>The WHERE clause that \<open>read_books\<close> builds, read as a predicate on a row.\<close>

lemma conditions_hold_iff:
  "list_all (\<lambda>c. holds c r) (build_conditions genre author_id publisher_id) \<longleftrightarrow>
     (genre = None \<or> genre = Some '''' \<or> b_genre r = genre) \<and>
     (author_id = None \<or> author_id = Some 0 \<or> b_author_id r = author_id) \<and>
     (publisher_id = None \<or> publisher_id = Some 0 \<or> b_publisher_id r = publisher_id)"
  by (cases genre; cases author_id; cases publisher_id)
    (auto simp: build_conditions_def truthy_str_def truthy_int_def)

lemma conditions_bindable_iff:
  "list_all bindable (build_conditions genre author_id publisher_id) \<longleftrightarrow>
     (case author_id of None \<Rightarrow> True | Some i \<Rightarrow> sqlite_int i) \<and>
     (case publisher_id of None \<Rightarrow> True | Some i \<Rightarrow> sqlite_int i)"
  by (cases genre; cases author_id; cases publisher_id)
    (auto simp: build_conditions_def truthy_str_def truthy_int_def sqlite_int_def)

lemma read_books_rows:
  "read_books skip limit genre author_id publisher_id db =
     (if (case author_id of None \<Rightarrow> True | Some i \<Rightarrow> sqlite_int i) \<and>
         (case publisher_id of None \<Rightarrow> True | Some i \<Rightarrow> sqlite_int i)
      then sql_limit_offset limit skip
        (filter (\<lambda>r. (genre = None \<or> genre = Some '''' \<or> b_genre r = genre) \<and>
                      (author_id = None \<or> author_id = Some 0 \<or> b_author_id r = author_id) \<and>
                      (publisher_id = None \<or> publisher_id = Some 0 \<or>
                       b_publisher_id r = publisher_id))
           (books db))
      else Inl OverflowError,
      db, [Select Books])"
  by (simp add: read_books_def conditions_hold_iff conditions_bindable_iff)

lemma sql_limit_offset_eq:
  "sql_limit_offset limit skip rows =
     (if sqlite_int limit \<and> sqlite_int skip
      then Inr (if limit < 0 then drop (nat skip) rows
                else take (nat limit) (drop (nat skip) rows))
      else Inl OverflowError)"
  by (simp add: sql_limit_offset_def)

text \<open>C7: the rows \<open>read_books\<close> returns, for every request whose parameters the driver
  can bind. A genre other than the empty string keeps exactly the rows whose stored
  genre equals it, an id other than 0 keeps exactly the rows whose stored id equals it,
  the filters given together are joined by AND, and a filter left out keeps every row;
  the page is cut from the filtered rows. A genre given as the empty string, or an id
  given as 0, keeps every row too: on the seeded store the request genre = "" returns
  both books, whose stored genres are "Classic" and "Dystopian".\<close>

theorem read_books_filters:
  "read_books skip limit genre author_id publisher_id db =
     (if (case author_id of None \<Rightarrow> True | Some i \<Rightarrow> sqlite_int i) \<and>
         (case publisher_id of None \<Rightarrow> True | Some i \<Rightarrow> sqlite_int i)
      then sql_limit_offset limit skip
        (filter (\<lambda>r. (genre = None \<or> genre = Some '''' \<or> b_genre r = genre) \<and>
                      (author_id = None \<or> author_id = Some 0 \<or> b_author_id r = author_id) \<and>
                      (publisher_id = None \<or> publisher_id = Some 0 \<or>
                       b_publisher_id r = publisher_id))
           (books db))
      else Inl OverflowError,
      db, [Select Books]) \<and>
   fst (read_books 0 100 (Some '''') None None (seed_db today)) =
     Inr (books (seed_db today)) \<and>
   map b_genre (books (seed_db today)) = [Some ''Classic'', Some ''Dystopian'']"
proof (intro conjI)
  show "read_books skip limit genre author_id publisher_id db =
     (if (case author_id of None \<Rightarrow> True | Some i \<Rightarrow> sqlite_int i) \<and>
         (case publisher_id of None \<Rightarrow> True | Some i \<Rightarrow> sqlite_int i)
      then sql_limit_offset limit skip
        (filter (\<lambda>r. (genre = None \<or> genre = Some '''' \<or> b_genre r = genre) \<and>
                      (author_id = None \<or> author_id = Some 0 \<or> b_author_id r = author_id) \<and>
                      (publisher_id = None \<or> publisher_id = Some 0 \<or>
                       b_publisher_id r = publisher_id))
           (books db))
      else Inl OverflowError,
      db, [Select Books])"
    by (rule read_books_rows)
  show "fst (read_books 0 100 (Some '''') None None (seed_db today)) =
     Inr (books (seed_db today))"
    by (simp add: read_books_rows sql_limit_offset_eq sqlite_int_def seed_db_def)
  show "map b_genre (books (seed_db today)) = [Some ''Classic'', Some ''Dystopian'']"
    by (simp add: seed_db_def)
qed

subsection \<open>Pagination\<close>

text \<open>C8 (as amended): with a limit that is not negative, and limit and skip in the
  64-bit range, each list operation returns the first \<open>limit\<close> rows that follow the
  first \<open>skip\<close> rows of its table (of the filtered rows, for books, when the driver
  can bind the filter ids), so at most \<open>limit\<close> rows; a negative skip counts as 0.
  A request that leaves skip and limit out is answered with skip 0 and limit 100. On a
  table of two rows, skip 1 and limit 1 return the second row. The table is in creation
  order: a create appends its row.\<close>

theorem list_pagination:
  "(0 \<le> limit \<and> sqlite_int limit \<and> sqlite_int skip \<longrightarrow>
      fst (read_authors skip limit db) =
        Inr (take (nat limit) (drop (nat skip) (authors db))) \<and>
      fst (read_publishers skip limit db) =
        Inr (take (nat limit) (drop (nat skip) (publishers db))) \<and>
      ((case author_id of None \<Rightarrow> True | Some i \<Rightarrow> sqlite_int i) \<and>
       (case publisher_id of None \<Rightarrow> True | Some i \<Rightarrow> sqlite_int i) \<longrightarrow>
         fst (read_books skip limit genre author_id publisher_id db) =
           Inr (take (nat limit) (drop (nat skip)
             (filter (\<lambda>r. list_all (\<lambda>c. holds c r)
                             (build_conditions genre author_id publisher_id))
                (books db))))) \<and>
      (\<forall>rows. fst (read_authors skip limit db) = Inr rows \<longrightarrow>
               int (length rows) \<le> limit) \<and>
      (\<forall>rows. fst (read_publishers skip limit db) = Inr rows \<longrightarrow>
               int (length rows) \<le> limit) \<and>
      (\<forall>rows. fst (read_books skip limit genre author_id publisher_id db) = Inr rows \<longrightarrow>
               int (length rows) \<le> limit)) \<and>
   get_authors None None db = read_authors 0 100 db \<and>
   get_publishers None None db = read_publishers 0 100 db \<and>
   get_books None None genre author_id publisher_id db =
     read_books 0 100 genre author_id publisher_id db \<and>
   (authors db = [a1, a2] \<longrightarrow> fst (read_authors 1 1 db) = Inr [a2]) \<and>
   (publishers db = [p1, p2] \<longrightarrow> fst (read_publishers 1 1 db) = Inr [p2]) \<and>
   (books db = [b1, b2] \<longrightarrow> fst (read_books 1 1 None None None db) = Inr [b2]) \<and>
   ((a_email author = None \<or> a_email author \<notin> a_email ` set (authors db)) \<and>
    sqlite_int (next_rowid (sint (authors_seq db)) (map a_id (authors db))) \<longrightarrow>
      (\<exists>r db' log. create_author today author db = (Inr r, db', log) \<and>
         authors db' = authors db @ [r])) \<and>
   ((p_email publisher = None \<or> p_email publisher \<notin> p_email ` set (publishers db)) \<and>
    sqlite_int (next_rowid (sint (publishers_seq db)) (map p_id (publishers db))) \<longrightarrow>
      (\<exists>r db' log. create_publisher publisher db = (Inr r, db', log) \<and>
         publishers db' = publishers db @ [r])) \<and>
   ((case b_author_id book of None \<Rightarrow> True | Some a \<Rightarrow> a \<in> a_id ` set (authors db)) \<and>
    (case b_publisher_id book of None \<Rightarrow> True
     | Some p \<Rightarrow> p \<in> p_id ` set (publishers db)) \<and>
    (b_isbn book = None \<or> b_isbn book \<notin> b_isbn ` set (books db)) \<and>
    sqlite_int (next_rowid (sint (books_seq db)) (map b_id (books db))) \<longrightarrow>
      (\<exists>r db' log. create_book book db = (Inr r, db', log) \<and>
         books db' = books db @ [r]))"
proof -
  have page: "0 \<le> limit \<and> sqlite_int limit \<and> sqlite_int skip \<Longrightarrow>
      fst (read_authors skip limit db) =
        Inr (take (nat limit) (drop (nat skip) (authors db))) \<and>
      fst (read_publishers skip limit db) =
        Inr (take (nat limit) (drop (nat skip) (publishers db))) \<and>
      ((case author_id of None \<Rightarrow> True | Some i \<Rightarrow> sqlite_int i) \<and>
       (case publisher_id of None \<Rightarrow> True | Some i \<Rightarrow> sqlite_int i) \<longrightarrow>
         fst (read_books skip limit genre author_id publisher_id db) =
           Inr (take (nat limit) (drop (nat skip)
             (filter (\<lambda>r. list_all (\<lambda>c. holds c r)
                             (build_conditions genre author_id publisher_id))
                (books db)))))"
    by (simp add: read_authors_def read_publishers_def read_books_def sql_limit_offset_eq
        conditions_bindable_iff)
  have bound: "0 \<le> limit \<Longrightarrow> sql_limit_offset limit skip xs = Inr rows \<Longrightarrow>
      int (length rows) \<le> limit" for xs rows :: "'x list"
    by (auto simp: sql_limit_offset_eq split: if_splits)
  have bounds: "0 \<le> limit \<and> sqlite_int limit \<and> sqlite_int skip \<Longrightarrow>
      (\<forall>rows. fst (read_authors skip limit db) = Inr rows \<longrightarrow>
               int (length rows) \<le> limit) \<and>
      (\<forall>rows. fst (read_publishers skip limit db) = Inr rows \<longrightarrow>
               int (length rows) \<le> limit) \<and>
      (\<forall>rows. fst (read_books skip limit genre author_id publisher_id db) = Inr rows \<longrightarrow>
               int (length rows) \<le> limit)"
    using bound [of "authors db"] bound [of "publishers db"]
      bound [of "filter (\<lambda>r. list_all (\<lambda>c. holds c r)
                   (build_conditions genre author_id publisher_id)) (books db)"]
    by (auto simp: read_authors_def read_publishers_def read_books_def Let_def
        split: if_splits)
  have defaults: "get_authors None None db = read_authors 0 100 db \<and>
      get_publishers None None db = read_publishers 0 100 db \<and>
      get_books None None genre author_id publisher_id db =
        read_books 0 100 genre author_id publisher_id db"
    by (simp add: get_authors_def get_publishers_def get_books_def query_default_def)
  have two: "(authors db = [a1, a2] \<longrightarrow> fst (read_authors 1 1 db) = Inr [a2]) \<and>
      (publishers db = [p1, p2] \<longrightarrow> fst (read_publishers 1 1 db) = Inr [p2]) \<and>
      (books db = [b1, b2] \<longrightarrow> fst (read_books 1 1 None None None db) = Inr [b2])"
    by (simp add: read_authors_def read_publishers_def read_books_def sql_limit_offset_eq
        build_conditions_def sqlite_int_def)
  have ca: "(a_email author = None \<or> a_email author \<notin> a_email ` set (authors db)) \<and>
      sqlite_int (next_rowid (sint (authors_seq db)) (map a_id (authors db))) \<Longrightarrow>
      \<exists>r db' log. create_author today author db = (Inr r, db', log) \<and>
         authors db' = authors db @ [r]"
    using create_author_success [of author db today] by auto
  have cp: "(p_email publisher = None \<or> p_email publisher \<notin> p_email ` set (publishers db)) \<and>
      sqlite_int (next_rowid (sint (publishers_seq db)) (map p_id (publishers db))) \<Longrightarrow>
      \<exists>r db' log. create_publisher publisher db = (Inr r, db', log) \<and>
         publishers db' = publishers db @ [r]"
    using create_publisher_success [of publisher db] by auto
  have cb: "(case b_author_id book of None \<Rightarrow> True | Some a \<Rightarrow> a \<in> a_id ` set (authors db)) \<and>
    (case b_publisher_id book of None \<Rightarrow> True
     | Some p \<Rightarrow> p \<in> p_id ` set (publishers db)) \<and>
    (b_isbn book = None \<or> b_isbn book \<notin> b_isbn ` set (books db)) \<and>
    sqlite_int (next_rowid (sint (books_seq db)) (map b_id (books db))) \<Longrightarrow>
      \<exists>r db' log. create_book book db = (Inr r, db', log) \<and>
         books db' = books db @ [r]"
  proof -
    assume h: "(case b_author_id book of None \<Rightarrow> True
                | Some a \<Rightarrow> a \<in> a_id ` set (authors db)) \<and>
      (case b_publisher_id book of None \<Rightarrow> True
       | Some p \<Rightarrow> p \<in> p_id ` set (publishers db)) \<and>
      (b_isbn book = None \<or> b_isbn book \<notin> b_isbn ` set (books db)) \<and>
      sqlite_int (next_rowid (sint (books_seq db)) (map b_id (books db)))"
    then have a: "case b_author_id book of None \<Rightarrow> True
                  | Some a \<Rightarrow> a \<in> a_id ` set (authors db)"
      and p: "case b_publisher_id book of None \<Rightarrow> True
              | Some p \<Rightarrow> p \<in> p_id ` set (publishers db)"
      and i: "b_isbn book = None \<or> b_isbn book \<notin> b_isbn ` set (books db)"
      and n: "sqlite_int (next_rowid (sint (books_seq db)) (map b_id (books db)))"
      by blast+
    from create_book_success [OF a p i n] obtain r db' where
      "create_book book db =
         (Inr r, db',
          (case b_author_id book of None \<Rightarrow> [] | Some a \<Rightarrow> [Select Authors]) @
          (case b_publisher_id book of None \<Rightarrow> [] | Some p \<Rightarrow> [Select Publishers]) @
          [Insert Books, Commit, Select Books])"
      "db' = db\<lparr>books := books db @ [r], books_seq := b_rowid r\<rparr>"
      by blast
    then show ?thesis by auto
  qed
  from page bounds defaults two ca cp cb show ?thesis
    by (intro conjI impI allI) auto
qed

text \<open>On the seeded store: the second author; the books of author 2 after skipping one
  (none is left, since the filter runs before the page is cut); the first publisher for
  limit 1; and a new publisher is appended.\<close>

theorem list_pagination_witness:
  "fst (read_authors 1 1 (seed_db (Date 2024 1 1))) =
     Inr [\<lparr>a_name = ''George Orwell'', a_email = Some ''george@example.com'',
            a_bio = Some ''English novelist and essayist'',
            a_rowid = 2, a_date_registered = Some (Date 2024 1 1)\<rparr>] \<and>
   fst (read_books 1 5 None (Some 2) None (seed_db (Date 2024 1 1))) = Inr [] \<and>
   fst (read_publishers 0 1 (seed_db (Date 2024 1 1))) =
     Inr [\<lparr>p_name = ''Penguin Random House'', p_address = Some ''123 Publishing St, NY'',
            p_phone = Some ''555-1234'', p_email = Some ''info@prh.com'', p_rowid = 1\<rparr>] \<and>
   (\<exists>r db' log.
      create_publisher
        \<lparr>p_name = ''Faber'', p_address = None, p_phone = None, p_email = None\<rparr>
        (seed_db (Date 2024 1 1)) = (Inr r, db', log) \<and>
      publishers db' = publishers (seed_db (Date 2024 1 1)) @ [r])"
proof -
  let ?db = "seed_db (Date 2024 1 1)"
  let ?p = "\<lparr>p_name = ''Faber'', p_address = None, p_phone = None, p_email = None\<rparr>"
  note inst1 = list_pagination
    [where limit = 5 and skip = 1 and db = ?db and genre = None and author_id = "Some 2"
       and publisher_id = None and publisher = ?p]
  note inst2 = list_pagination [where limit = 1 and skip = 0 and db = ?db]
  have r: "sqlite_int 0" "sqlite_int 1" "sqlite_int 2" "sqlite_int 3" "sqlite_int 5"
    by (simp_all add: sqlite_int_def)
  have two: "authors ?db =
      [\<lparr>a_name = ''Jane Austen'', a_email = Some ''jane@example.com'',
         a_bio = Some ''Famous English novelist known for her six major novels'',
         a_rowid = 1, a_date_registered = Some (Date 2024 1 1)\<rparr>,
       \<lparr>a_name = ''George Orwell'', a_email = Some ''george@example.com'',
         a_bio = Some ''English novelist and essayist'',
         a_rowid = 2, a_date_registered = Some (Date 2024 1 1)\<rparr>]"
    by (simp add: seed_db_def)
  have h1: "0 \<le> (5::int) \<and> sqlite_int 5 \<and> sqlite_int 1"
    and h2: "0 \<le> (1::int) \<and> sqlite_int 1 \<and> sqlite_int 0"
    and hf: "(case Some (2::int) of None \<Rightarrow> True | Some i \<Rightarrow> sqlite_int i) \<and>
             (case None :: int option of None \<Rightarrow> True | Some i \<Rightarrow> sqlite_int i)"
    using r by simp_all
  have hp: "(p_email ?p = None \<or> p_email ?p \<notin> p_email ` set (publishers ?db)) \<and>
      sqlite_int (next_rowid (sint (publishers_seq ?db)) (map p_id (publishers ?db)))"
    using r by (simp add: seed_next_rowid)
  note second = inst1 [THEN conjunct2, THEN conjunct2, THEN conjunct2, THEN conjunct2,
      THEN conjunct1, THEN mp, OF two]
  note filtered = inst1 [THEN conjunct1, THEN mp, OF h1, THEN conjunct2, THEN conjunct2,
      THEN conjunct1, THEN mp, OF hf]
  note first_page = inst2 [THEN conjunct1, THEN mp, OF h2, THEN conjunct2, THEN conjunct1]
  note appended = inst1 [THEN conjunct2, THEN conjunct2, THEN conjunct2, THEN conjunct2,
      THEN conjunct2, THEN conjunct2, THEN conjunct2, THEN conjunct2, THEN conjunct1,
      THEN mp, OF hp]
  have 1: "fst (read_authors 1 1 ?db) =
     Inr [\<lparr>a_name = ''George Orwell'', a_email = Some ''george@example.com'',
            a_bio = Some ''English novelist and essayist'',
            a_rowid = 2, a_date_registered = Some (Date 2024 1 1)\<rparr>]"
    by (rule second)
  have 2: "fst (read_books 1 5 None (Some 2) None ?db) = Inr []"
    using filtered by (simp add: build_conditions_def truthy_int_def seed_db_def)
  have 3: "fst (read_publishers 0 1 ?db) =
     Inr [\<lparr>p_name = ''Penguin Random House'', p_address = Some ''123 Publishing St, NY'',
            p_phone = Some ''555-1234'', p_email = Some ''info@prh.com'', p_rowid = 1\<rparr>]"
    using first_page by (simp add: seed_db_def)
  have 4: "\<exists>r db' log. create_publisher ?p ?db = (Inr r, db', log) \<and>
      publishers db' = publishers ?db @ [r]"
    by (rule appended)
  from 1 2 3 4 show ?thesis by (intro conjI)
qed

text \<open>C8 as stated fails in two places: the limit \<open>2 ^ 63\<close>, which the driver cannot
  bind, ends in \<open>OverflowError\<close> and returns no list at all; and for the limit -1 both
  authors are returned, which is more than the limit.\<close>

theorem list_pagination_counterexample:
  "read_authors 0 9223372036854775808 (seed_db (Date 2024 1 1)) =
     (Inl OverflowError, seed_db (Date 2024 1 1), [Select Authors]) \<and>
   fst (read_authors 0 (- 1) (seed_db (Date 2024 1 1))) =
     Inr (authors (seed_db (Date 2024 1 1))) \<and>
   length (authors (seed_db (Date 2024 1 1))) = 2 \<and>
   \<not> (2::int) \<le> - 1"
proof -
  have r: "\<not> sqlite_int 9223372036854775808" "sqlite_int 0" "sqlite_int (- 1)"
    by (simp_all add: sqlite_int_def)
  have "read_authors 0 9223372036854775808 (seed_db (Date 2024 1 1)) =
     (Inl OverflowError, seed_db (Date 2024 1 1), [Select Authors])"
    using r by (simp add: read_authors_def sql_limit_offset_eq)
  moreover have "fst (read_authors 0 (- 1) (seed_db (Date 2024 1 1))) =
     Inr (authors (seed_db (Date 2024 1 1)))"
    using r by (simp add: read_authors_def sql_limit_offset_eq)
  moreover have "length (authors (seed_db (Date 2024 1 1))) = 2"
    by (simp add: seed_db_def)
  ultimately show ?thesis by simp
qed

end
